theory Spec2Isabelle
  imports Complex_Main "HOL-Library.Sublist" "HOL-Library.Multiset"
begin

section \<open>Data model\<close>

text \<open>
  The program is JavaScript. Its numbers are modelled as exact real numbers: every distance,
  duration and fare is a \<^typ>\<open>real\<close>, \<open>Math.round x\<close> is \<open>\<lfloor>x + 1/2\<rfloor>\<close> (ties go up, as in
  JavaScript) and \<open>Math.floor\<close> is \<open>\<lfloor>x\<rfloor>\<close>. The rounding error of IEEE doubles is outside
  the model.

  A JavaScript string is the list of its UTF-16 code units. A property that may be
  \<open>undefined\<close> is an \<open>option\<close>.
\<close>

type_synonym jsstring = "nat list"

text \<open>\<open>String.prototype.includes\<close>: the key occurs at some position of the string.\<close>

fun starts_with :: "jsstring \<Rightarrow> jsstring \<Rightarrow> bool" where
  "starts_with s [] = True"
| "starts_with [] (k # ks) = False"
| "starts_with (c # cs) (k # ks) = (c = k \<and> starts_with cs ks)"

fun str_includes :: "jsstring \<Rightarrow> jsstring \<Rightarrow> bool" where
  "str_includes [] key = starts_with [] key"
| "str_includes (c # cs) key = (starts_with (c # cs) key \<or> str_includes cs key)"

text \<open>GeoPoint \<open>{ lng, lat, name }\<close>; the handlers copy each field from the request as it is.\<close>

record geopoint =
  lng :: "real option"
  lat :: "real option"
  name :: "jsstring option"

text \<open>
  A segment is an object whose fields depend on its \<open>mode\<close>:
  taxi \<open>{from, to, distance, duration, cost, waitTime}\<close>,
  subway \<open>{line, from, to, stations, duration}\<close>, walk \<open>{distance, duration}\<close>.
\<close>

record taxi_segment =
  tx_from :: "jsstring option"
  tx_to :: "jsstring option"
  tx_distance :: real
  tx_duration :: real
  tx_cost :: real
  tx_waitTime :: real

datatype segment =
    Taxi taxi_segment
  | Subway jsstring jsstring jsstring real real
  | Walk real real

fun is_taxi :: "segment \<Rightarrow> bool" where
  "is_taxi (Taxi t) = True"
| "is_taxi _ = False"

fun is_subway :: "segment \<Rightarrow> bool" where
  "is_subway (Subway l f t n m) = True"
| "is_subway _ = False"

fun is_walk :: "segment \<Rightarrow> bool" where
  "is_walk (Walk d m) = True"
| "is_walk _ = False"

text \<open>Field reads; \<open>None\<close> is JavaScript's \<open>undefined\<close> for a field the object lacks.\<close>

fun seg_distance :: "segment \<Rightarrow> real option" where
  "seg_distance (Taxi t) = Some (tx_distance t)"
| "seg_distance (Subway l f t n m) = None"
| "seg_distance (Walk d m) = Some d"

fun seg_duration :: "segment \<Rightarrow> real option" where
  "seg_duration (Taxi t) = Some (tx_duration t)"
| "seg_duration (Subway l f t n m) = Some m"
| "seg_duration (Walk d m) = Some m"

fun seg_cost :: "segment \<Rightarrow> real option" where
  "seg_cost (Taxi t) = Some (tx_cost t)"
| "seg_cost _ = None"

fun seg_waitTime :: "segment \<Rightarrow> real option" where
  "seg_waitTime (Taxi t) = Some (tx_waitTime t)"
| "seg_waitTime _ = None"

datatype route_type = subway | taxi | mixed

text \<open>
  Route ids are template strings; the model keeps the template and its holes:
  the provider's id, \<open>taxi_full\<close>, \<open>mixed_start_taxi_${name}\<close>, \<open>mixed_end_taxi_${name}\<close>,
  \<open>mixed_both_taxi_${name}_${name}\<close>.
\<close>

datatype route_id =
    provider_id string
  | taxi_full
  | mixed_start_taxi "jsstring option"
  | mixed_end_taxi "jsstring option"
  | mixed_both_taxi "jsstring option" "jsstring option"

record route =
  ident :: route_id
  rtype :: route_type
  segments :: "segment list"
  totalDuration :: real
  totalCost :: real
  totalDistance :: real

text \<open>What the mapping provider returns: a transit itinerary and a driving estimate.\<close>

record transit =
  t_id :: string
  t_duration :: real
  t_distance :: real
  t_cost :: real
  t_walkDistance :: real
  t_segments :: "segment list"

record driving =
  d_distance :: real
  d_duration :: real
  d_traffic :: real
  d_tolls :: real

text \<open>
  The provider client (\<open>amapService\<close>) is an external service: each call reads and may
  change the world \<open>'w\<close>. Both methods catch their own failures, so a call always returns:
  \<open>getSubwayRoutes\<close> a list (possibly empty), \<open>getDrivingRoute\<close> an estimate or \<open>null\<close>.
\<close>

record 'w amapService =
  getSubwayRoutes :: "geopoint \<Rightarrow> geopoint \<Rightarrow> 'w \<Rightarrow> transit list \<times> 'w"
  getDrivingRoute :: "geopoint \<Rightarrow> geopoint \<Rightarrow> 'w \<Rightarrow> driving option \<times> 'w"

datatype scenario = rushToCatch | lateNight | peak | routine

text \<open>
  The preference is a string; \<open>pref_other\<close> stands for any string that is not a key of
  the weight table (names that every object inherits, such as \<open>constructor\<close>, are left
  out of the model).
\<close>

datatype preference = pref_time | pref_cost | pref_balance | pref_other

datatype error = TypeError

section \<open>Taxi cost estimator\<close>

definition Math_round :: "real \<Rightarrow> real" where
  "Math_round x = of_int \<lfloor>x + 1 / 2\<rfloor>"

definition Math_floor :: "real \<Rightarrow> real" where
  "Math_floor x = of_int \<lfloor>x\<rfloor>"

text \<open>\<open>RoutePlannerService._estimateTaxiCost(distance, duration, scenario = routine)\<close>.\<close>

definition estimateTaxiCost :: "real \<Rightarrow> real \<Rightarrow> scenario \<Rightarrow> real" where
  "estimateTaxiCost distance duration scen =
     (let baseFare = 13;
          perKm = 23 / 10;
          perMin = 1 / 2;
          cost0 = baseFare;
          cost1 = cost0 + max 0 (distance / 1000 - 3) * perKm;
          cost2 = cost1 + duration * perMin;
          cost3 = (if scen = peak then cost2 * (13 / 10) else cost2);
          cost4 = (if scen = lateNight then cost3 * (3 / 2) else cost3)
      in Math_round (cost4 * 10) / 10)"

text \<open>\<open>MixedRouteGenerator._estimateTaxiCost(distance, duration)\<close>: no scenario.\<close>

definition mixed_estimateTaxiCost :: "real \<Rightarrow> real \<Rightarrow> real" where
  "mixed_estimateTaxiCost distance duration =
     (let baseFare = 13;
          perKm = 23 / 10;
          perMin = 1 / 2;
          kmCost = max 0 (distance / 1000 - 3) * perKm;
          timeCost = duration * perMin
      in Math_round ((baseFare + kmCost + timeCost) * 10) / 10)"

section \<open>Scenario detector\<close>

definition kw_airport :: jsstring where
  "kw_airport = [0x673A, 0x573A]"

definition kw_railway :: jsstring where
  "kw_railway = [0x706B, 0x8F66, 0x7AD9]"

text \<open>\<open>name?.includes(key)\<close>: \<open>undefined\<close>, which is falsy, when the name is absent.\<close>

definition opt_includes :: "jsstring option \<Rightarrow> jsstring \<Rightarrow> bool" where
  "opt_includes n key = (case n of None \<Rightarrow> False | Some s \<Rightarrow> str_includes s key)"

text \<open>
  \<open>_detectScenario({origin, destination, time})\<close>; \<open>hour\<close> is \<open>time.getHours()\<close>, a whole
  number from 0 to 23.
\<close>

definition detectScenario :: "geopoint \<Rightarrow> geopoint \<Rightarrow> nat \<Rightarrow> scenario" where
  "detectScenario origin destination hour =
     (if opt_includes (name destination) kw_airport \<or> opt_includes (name destination) kw_railway
      then rushToCatch
      else if hour \<ge> 23 \<or> hour < 5 then lateNight
      else if (hour \<ge> 7 \<and> hour \<le> 9) \<or> (hour \<ge> 17 \<and> hour \<le> 19) then peak
      else routine)"

section \<open>Hybrid route generator\<close>

text \<open>
  \<open>_calculateTaxiSegment(from, to)\<close>. The driving estimate may be \<open>null\<close>; reading
  \<open>driving.distance\<close> then throws a TypeError, which the caller's \<open>try/catch\<close> turns into
  skipping the candidate.
\<close>

definition calculateTaxiSegment ::
  "'w amapService \<Rightarrow> geopoint \<Rightarrow> geopoint \<Rightarrow> 'w \<Rightarrow> (error + taxi_segment) \<times> 'w" where
  "calculateTaxiSegment amap from_pt to_pt w =
     (case getDrivingRoute amap from_pt to_pt w of
        (None, w1) \<Rightarrow> (Inl TypeError, w1)
      | (Some drv, w1) \<Rightarrow>
          (let cost = mixed_estimateTaxiCost (d_distance drv) (d_duration drv)
           in (Inr \<lparr> tx_from = name from_pt,
                     tx_to = name to_pt,
                     tx_distance = d_distance drv,
                     tx_duration = d_duration drv + 3,
                     tx_cost = cost,
                     tx_waitTime = 3 \<rparr>, w1)))"

text \<open>The three object literals the strategies push.\<close>

definition start_taxi_route :: "geopoint \<Rightarrow> taxi_segment \<Rightarrow> transit \<Rightarrow> route" where
  "start_taxi_route station taxiSegment subwaySegment =
     \<lparr> ident = mixed_start_taxi (name station),
       rtype = mixed,
       segments = Taxi taxiSegment # t_segments subwaySegment,
       totalDuration = tx_duration taxiSegment + t_duration subwaySegment,
       totalCost = tx_cost taxiSegment + t_cost subwaySegment,
       totalDistance = tx_distance taxiSegment + t_distance subwaySegment \<rparr>"

definition end_taxi_route :: "geopoint \<Rightarrow> transit \<Rightarrow> taxi_segment \<Rightarrow> route" where
  "end_taxi_route station subwaySegment taxiSegment =
     \<lparr> ident = mixed_end_taxi (name station),
       rtype = mixed,
       segments = t_segments subwaySegment @ [Taxi taxiSegment],
       totalDuration = t_duration subwaySegment + tx_duration taxiSegment,
       totalCost = t_cost subwaySegment + tx_cost taxiSegment,
       totalDistance = t_distance subwaySegment + tx_distance taxiSegment \<rparr>"

definition both_taxi_route ::
  "geopoint \<Rightarrow> geopoint \<Rightarrow> taxi_segment \<Rightarrow> transit \<Rightarrow> taxi_segment \<Rightarrow> route" where
  "both_taxi_route startStation endStation startTaxi subwaySegment endTaxi =
     \<lparr> ident = mixed_both_taxi (name startStation) (name endStation),
       rtype = mixed,
       segments = Taxi startTaxi # t_segments subwaySegment @ [Taxi endTaxi],
       totalDuration =
         tx_duration startTaxi + t_duration subwaySegment + tx_duration endTaxi,
       totalCost = tx_cost startTaxi + t_cost subwaySegment + tx_cost endTaxi,
       totalDistance =
         tx_distance startTaxi + t_distance subwaySegment + tx_distance endTaxi \<rparr>"

text \<open>
  Strategy 1, the loop of \<open>_generateStartTaxiRoutes\<close> over the stations: taxi to the
  station, then the provider's first transit itinerary from there.
\<close>

fun start_taxi_loop ::
  "'w amapService \<Rightarrow> geopoint \<Rightarrow> geopoint \<Rightarrow> geopoint list \<Rightarrow> 'w \<Rightarrow> route list \<times> 'w" where
  "start_taxi_loop amap origin destination [] w = ([], w)"
| "start_taxi_loop amap origin destination (station # rest) w =
     (case calculateTaxiSegment amap origin station w of
        (Inl e, w1) \<Rightarrow> start_taxi_loop amap origin destination rest w1
      | (Inr taxiSegment, w1) \<Rightarrow>
          (case getSubwayRoutes amap station destination w1 of
             ([], w2) \<Rightarrow> start_taxi_loop amap origin destination rest w2
           | (subwaySegment # others, w2) \<Rightarrow>
               (case start_taxi_loop amap origin destination rest w2 of
                  (routes, w3) \<Rightarrow>
                    (start_taxi_route station taxiSegment subwaySegment # routes, w3))))"

definition generateStartTaxiRoutes ::
  "'w amapService \<Rightarrow> geopoint \<Rightarrow> geopoint \<Rightarrow> geopoint list \<Rightarrow> 'w \<Rightarrow> route list \<times> 'w" where
  "generateStartTaxiRoutes amap origin destination stations w =
     (let nearbyStations = take 5 stations
      in start_taxi_loop amap origin destination nearbyStations w)"

text \<open>Strategy 2, the loop of \<open>_generateEndTaxiRoutes\<close>: transit first, then the taxi.\<close>

fun end_taxi_loop ::
  "'w amapService \<Rightarrow> geopoint \<Rightarrow> geopoint \<Rightarrow> geopoint list \<Rightarrow> 'w \<Rightarrow> route list \<times> 'w" where
  "end_taxi_loop amap origin destination [] w = ([], w)"
| "end_taxi_loop amap origin destination (station # rest) w =
     (case getSubwayRoutes amap origin station w of
        ([], w1) \<Rightarrow> end_taxi_loop amap origin destination rest w1
      | (subwaySegment # others, w1) \<Rightarrow>
          (case calculateTaxiSegment amap station destination w1 of
             (Inl e, w2) \<Rightarrow> end_taxi_loop amap origin destination rest w2
           | (Inr taxiSegment, w2) \<Rightarrow>
               (case end_taxi_loop amap origin destination rest w2 of
                  (routes, w3) \<Rightarrow>
                    (end_taxi_route station subwaySegment taxiSegment # routes, w3))))"

definition generateEndTaxiRoutes ::
  "'w amapService \<Rightarrow> geopoint \<Rightarrow> geopoint \<Rightarrow> geopoint list \<Rightarrow> 'w \<Rightarrow> route list \<times> 'w" where
  "generateEndTaxiRoutes amap origin destination stations w =
     (let nearbyStations = drop (length stations - 5) stations
      in end_taxi_loop amap origin destination nearbyStations w)"

text \<open>Strategy 3, the nested loops of \<open>_generateBothTaxiRoutes\<close>.\<close>

fun both_taxi_inner ::
  "'w amapService \<Rightarrow> geopoint \<Rightarrow> geopoint \<Rightarrow> geopoint \<Rightarrow> geopoint list \<Rightarrow> 'w \<Rightarrow> route list \<times> 'w"
  where
  "both_taxi_inner amap origin destination startStation [] w = ([], w)"
| "both_taxi_inner amap origin destination startStation (endStation # rest) w =
     (case calculateTaxiSegment amap origin startStation w of
        (Inl e, w1) \<Rightarrow> both_taxi_inner amap origin destination startStation rest w1
      | (Inr startTaxi, w1) \<Rightarrow>
          (case getSubwayRoutes amap startStation endStation w1 of
             ([], w2) \<Rightarrow> both_taxi_inner amap origin destination startStation rest w2
           | (subwaySegment # others, w2) \<Rightarrow>
               (case calculateTaxiSegment amap endStation destination w2 of
                  (Inl e, w3) \<Rightarrow> both_taxi_inner amap origin destination startStation rest w3
                | (Inr endTaxi, w3) \<Rightarrow>
                    (case both_taxi_inner amap origin destination startStation rest w3 of
                       (routes, w4) \<Rightarrow>
                         (both_taxi_route startStation endStation startTaxi subwaySegment endTaxi
                            # routes, w4)))))"

fun both_taxi_outer ::
  "'w amapService \<Rightarrow> geopoint \<Rightarrow> geopoint \<Rightarrow> geopoint list \<Rightarrow> geopoint list \<Rightarrow> 'w \<Rightarrow> route list \<times> 'w"
  where
  "both_taxi_outer amap origin destination [] endStations w = ([], w)"
| "both_taxi_outer amap origin destination (startStation # rest) endStations w =
     (case both_taxi_inner amap origin destination startStation endStations w of
        (routes1, w1) \<Rightarrow>
          (case both_taxi_outer amap origin destination rest endStations w1 of
             (routes2, w2) \<Rightarrow> (routes1 @ routes2, w2)))"

definition generateBothTaxiRoutes ::
  "'w amapService \<Rightarrow> geopoint \<Rightarrow> geopoint \<Rightarrow> geopoint list \<Rightarrow> 'w \<Rightarrow> route list \<times> 'w" where
  "generateBothTaxiRoutes amap origin destination stations w =
     (let startStations = take 2 stations;
          endStations = drop (length stations - 2) stations
      in both_taxi_outer amap origin destination startStations endStations w)"

section \<open>Pruning filter\<close>

text \<open>
  \<open>_pruneRoutes(routes)\<close>. \<open>Array.prototype.sort\<close> is stable, and so is \<^const>\<open>sort_key\<close>
  (insertion sort); the comparator is the difference of the two keys.
\<close>

definition taxi_leg_long :: "segment \<Rightarrow> bool" where
  "taxi_leg_long s = (case seg_distance s of None \<Rightarrow> False | Some d \<Rightarrow> d > 2000)"

definition worth_keeping :: "route \<Rightarrow> bool" where
  "worth_keeping r =
     (let taxiSegments = filter is_taxi (segments r)
      in list_all taxi_leg_long taxiSegments)"

definition prune_key :: "route \<Rightarrow> real" where
  "prune_key r = totalDuration r + totalCost r * 2"

definition pruneRoutes :: "route list \<Rightarrow> route list" where
  "pruneRoutes routes =
     (let filtered = filter worth_keeping routes;
          sorted_routes = sort_key prune_key filtered
      in take 10 sorted_routes)"

text \<open>\<open>generateMixedRoutes(origin, destination, subwayStations)\<close>.\<close>

definition generateMixedRoutes ::
  "'w amapService \<Rightarrow> geopoint \<Rightarrow> geopoint \<Rightarrow> geopoint list \<Rightarrow> 'w \<Rightarrow> route list \<times> 'w" where
  "generateMixedRoutes amap origin destination subwayStations w =
     (case generateStartTaxiRoutes amap origin destination subwayStations w of
        (startTaxiRoutes, w1) \<Rightarrow>
          (case generateEndTaxiRoutes amap origin destination subwayStations w1 of
             (endTaxiRoutes, w2) \<Rightarrow>
               (case generateBothTaxiRoutes amap origin destination subwayStations w2 of
                  (bothTaxiRoutes, w3) \<Rightarrow>
                    (pruneRoutes (startTaxiRoutes @ endTaxiRoutes @ bothTaxiRoutes), w3))))"

text \<open>\<open>getSubwayStationsAlongRoute\<close>: the fixed pool of seven stations.\<close>

definition station :: "jsstring \<Rightarrow> real \<Rightarrow> real \<Rightarrow> geopoint" where
  "station n x y = \<lparr> lng = Some x, lat = Some y, name = Some n \<rparr>"

definition getSubwayStationsAlongRoute :: "geopoint \<Rightarrow> geopoint \<Rightarrow> geopoint list" where
  "getSubwayStationsAlongRoute origin destination =
     [ station [0x5927, 0x5174, 0x673A, 0x573A, 0x7AD9] (116410742 / 1000000) (39509723 / 1000000),
       station [0x5927, 0x5174, 0x65B0, 0x57CE, 0x7AD9] (116338611 / 1000000) (39728831 / 1000000),
       station [0x8349, 0x6865, 0x7AD9] (116345678 / 1000000) (39856789 / 1000000),
       station [0x897F, 0x5355, 0x7AD9] (116374762 / 1000000) (39912289 / 1000000),
       station [0x897F, 0x76F4, 0x95E8, 0x7AD9] (116347382 / 1000000) (39942327 / 1000000),
       station [0x5317, 0x4EAC, 0x5317, 0x7AD9] (116358065 / 1000000) (39953039 / 1000000),
       station [0x751F, 0x547D, 0x79D1, 0x5B66, 0x56ED, 0x7AD9] (116293678 / 1000000)
         (40072345 / 1000000) ]"

section \<open>Candidate generation of the planner\<close>

text \<open>
  The \<open>forEach\<close> of \<open>_generateAllRoutes\<close> that turns a transit itinerary into a
  candidate: the type is set and the three totals are copied.
\<close>

definition subway_candidate :: "transit \<Rightarrow> route" where
  "subway_candidate t =
     \<lparr> ident = provider_id (t_id t),
       rtype = subway,
       segments = t_segments t,
       totalDuration = t_duration t,
       totalCost = t_cost t,
       totalDistance = t_distance t \<rparr>"

text \<open>
  \<open>_generateTaxiRoute(origin, destination)\<close>. The call of the estimator passes two
  arguments, so its third parameter takes the default, \<open>routine\<close>.
\<close>

definition generateTaxiRoute ::
  "'w amapService \<Rightarrow> geopoint \<Rightarrow> geopoint \<Rightarrow> 'w \<Rightarrow> route option \<times> 'w" where
  "generateTaxiRoute amap origin destination w =
     (case getDrivingRoute amap origin destination w of
        (None, w1) \<Rightarrow> (None, w1)
      | (Some drv, w1) \<Rightarrow>
          (let cost = estimateTaxiCost (d_distance drv) (d_duration drv) routine
           in (Some \<lparr> ident = taxi_full,
                      rtype = taxi,
                      segments =
                        [Taxi \<lparr> tx_from = name origin,
                                 tx_to = name destination,
                                 tx_distance = d_distance drv,
                                 tx_duration = d_duration drv,
                                 tx_cost = cost,
                                 tx_waitTime = 5 \<rparr>],
                      totalDuration = d_duration drv + 5,
                      totalCost = cost,
                      totalDistance = d_distance drv \<rparr>, w1)))"

definition generateAllRoutes ::
  "'w amapService \<Rightarrow> geopoint \<Rightarrow> geopoint \<Rightarrow> 'w \<Rightarrow> route list \<times> 'w" where
  "generateAllRoutes amap origin destination w =
     (case getSubwayRoutes amap origin destination w of
        (subwayRoutes, w1) \<Rightarrow>
          (case generateTaxiRoute amap origin destination w1 of
             (taxiRoute, w2) \<Rightarrow>
               (let stations = getSubwayStationsAlongRoute origin destination
                in case generateMixedRoutes amap origin destination stations w2 of
                     (mixedRoutes, w3) \<Rightarrow>
                       (map subway_candidate subwayRoutes
                          @ (case taxiRoute of None \<Rightarrow> [] | Some r \<Rightarrow> [r])
                          @ mixedRoutes, w3))))"

section \<open>Scoring engine\<close>

record scores =
  score_time :: real
  score_cost :: real
  score_comfort :: real
  score_total :: real

text \<open>
  The summary's description is one of two fixed texts or the template
  \<open>taxi ${taxiCount} + subway ${subwayCount}\<close>.
\<close>

datatype description = all_taxi | all_subway | taxi_and_subway nat nat

record summary =
  description :: description
  totalTime :: real
  summary_totalCost :: real
  walkDistance :: real

text \<open>\<open>{...route, scores, summary}\<close>.\<close>

record scored_route = route +
  scores :: scores
  summary :: summary

record weights =
  w_time :: real
  w_cost :: real
  w_comfort :: real

text \<open>\<open>seg.distance\<close> as the sums over walk segments read it.\<close>

fun walk_distance :: "segment \<Rightarrow> real" where
  "walk_distance (Walk d m) = d"
| "walk_distance _ = 0"

text \<open>\<open>seg.waitTime || 0\<close>.\<close>

definition wait_or_0 :: "segment \<Rightarrow> real" where
  "wait_or_0 s = (case seg_waitTime s of None \<Rightarrow> 0 | Some t \<Rightarrow> t)"

definition calculateComfortScore :: "route \<Rightarrow> real" where
  "calculateComfortScore r =
     (let segs = segments r;
          transfers =
            length (filter (\<lambda>i. i > 0 \<and> is_subway (segs ! i) \<and> is_subway (segs ! (i - 1)))
                      [0 ..< length segs]);
          score1 = 100 - of_nat transfers * 15;
          walked = sum_list (map walk_distance (filter is_walk segs));
          score2 = score1 - Math_floor (walked / 500) * 5;
          taxiWait = sum_list (map wait_or_0 (filter is_taxi segs));
          score3 = score2 - taxiWait * 2
      in max 0 score3)"

text \<open>
  \<open>_getWeights(preference, scenario)\<close>: \<open>baseWeights[preference] || baseWeights.balance\<close>,
  replaced as a whole in two scenarios.
\<close>

definition getWeights :: "preference \<Rightarrow> scenario \<Rightarrow> weights" where
  "getWeights pref scen =
     (let base =
            (case pref of
               pref_time \<Rightarrow> \<lparr> w_time = 7 / 10, w_cost = 2 / 10, w_comfort = 1 / 10 \<rparr>
             | pref_cost \<Rightarrow> \<lparr> w_time = 2 / 10, w_cost = 7 / 10, w_comfort = 1 / 10 \<rparr>
             | pref_balance \<Rightarrow> \<lparr> w_time = 4 / 10, w_cost = 4 / 10, w_comfort = 2 / 10 \<rparr>
             | pref_other \<Rightarrow> \<lparr> w_time = 4 / 10, w_cost = 4 / 10, w_comfort = 2 / 10 \<rparr>)
      in if scen = rushToCatch then \<lparr> w_time = 8 / 10, w_cost = 1 / 10, w_comfort = 1 / 10 \<rparr>
         else if scen = lateNight then \<lparr> w_time = 4 / 10, w_cost = 3 / 10, w_comfort = 3 / 10 \<rparr>
         else base)"

definition generateSummary :: "route \<Rightarrow> summary" where
  "generateSummary r =
     (let taxiCount = length (filter is_taxi (segments r));
          subwayCount = length (filter is_subway (segments r))
      in \<lparr> description =
             (if rtype r = taxi then all_taxi
              else if rtype r = subway then all_subway
              else taxi_and_subway taxiCount subwayCount),
           totalTime = totalDuration r,
           summary_totalCost = totalCost r,
           walkDistance = sum_list (map walk_distance (filter is_walk (segments r))) \<rparr>)"

text \<open>
  The normalisation of one axis:
  \<open>max === min ? 100 : 100 * (1 - (value - min) / (max - min))\<close>.
\<close>

definition axis_score :: "real \<Rightarrow> real \<Rightarrow> real \<Rightarrow> real" where
  "axis_score lo hi v = (if hi = lo then 100 else 100 * (1 - (v - lo) / (hi - lo)))"

text \<open>The callback of the \<open>map\<close> in \<open>_calculateScores\<close>, with the four extremes it closes over.\<close>

definition score_route ::
  "real \<Rightarrow> real \<Rightarrow> real \<Rightarrow> real \<Rightarrow> preference \<Rightarrow> scenario \<Rightarrow> route \<Rightarrow> scored_route" where
  "score_route minTime maxTime minCost maxCost pref scen r =
     (let timeScore = axis_score minTime maxTime (totalDuration r);
          costScore = axis_score minCost maxCost (totalCost r);
          comfortScore = calculateComfortScore r;
          ws = getWeights pref scen;
          totalScore =
            (timeScore * w_time ws + costScore * w_cost ws + comfortScore * w_comfort ws) / 100
      in \<lparr> ident = ident r,
           rtype = rtype r,
           segments = segments r,
           totalDuration = totalDuration r,
           totalCost = totalCost r,
           totalDistance = totalDistance r,
           scores = \<lparr> score_time = Math_round timeScore,
                      score_cost = Math_round costScore,
                      score_comfort = Math_round comfortScore,
                      score_total = Math_round (totalScore * 10) / 10 \<rparr>,
           summary = generateSummary r \<rparr>)"

text \<open>
  \<open>_calculateScores(routes, preference, scenario)\<close>. \<open>Math.min(...xs)\<close> and
  \<open>Math.max(...xs)\<close> are taken of a list that the guard has shown nonempty.
\<close>

definition calculateScores :: "route list \<Rightarrow> preference \<Rightarrow> scenario \<Rightarrow> scored_route list" where
  "calculateScores routes pref scen =
     (if length routes = 0 then []
      else
        (let minTime = Min (set (map totalDuration routes));
             maxTime = Max (set (map totalDuration routes));
             minCost = Min (set (map totalCost routes));
             maxCost = Max (set (map totalCost routes))
         in map (score_route minTime maxTime minCost maxCost pref scen) routes))"

section \<open>Recommendation selector\<close>

datatype reason = peak_subway_steady | peak_quick | safe_and_easy | fastest_arrival | best_value

text \<open>
  Tags are fixed texts or templates with one number:
  \<open>faster than the slowest by ${n} minutes\<close>, \<open>cheaper than the dearest by ${n}\<close>.
\<close>

datatype tag =
    tag_fastest
  | tag_faster_by int
  | tag_cheapest
  | tag_cheaper_by int
  | tag_recommended
  | tag_reason reason

record tagged_route = scored_route +
  tags :: "tag list"

definition with_tags :: "scored_route \<Rightarrow> tag list \<Rightarrow> tagged_route" where
  "with_tags r ts =
     \<lparr> ident = ident r,
       rtype = rtype r,
       segments = segments r,
       totalDuration = totalDuration r,
       totalCost = totalCost r,
       totalDistance = totalDistance r,
       scores = scores r,
       summary = summary r,
       tags = ts \<rparr>"

definition getRecommendReason :: "scored_route \<Rightarrow> scenario \<Rightarrow> reason" where
  "getRecommendReason r scen =
     (if scen = peak then (if rtype r = subway then peak_subway_steady else peak_quick)
      else if scen = lateNight then safe_and_easy
      else if scen = rushToCatch then fastest_arrival
      else best_value)"

record recommendation =
  recommended :: "tagged_route option"
  fastest :: "tagged_route option"
  cheapest :: "tagged_route option"

text \<open>
  \<open>_recommend(scoredRoutes, scenario, preference)\<close>. The three sorts work on copies;
  \<open>byTime[0]\<close> and \<open>byTime[byTime.length - 1]\<close> are read of lists the guard has shown
  nonempty.
\<close>

definition recommend :: "scored_route list \<Rightarrow> scenario \<Rightarrow> preference \<Rightarrow> recommendation" where
  "recommend scoredRoutes scen pref =
     (if length scoredRoutes = 0
      then \<lparr> recommended = None, fastest = None, cheapest = None \<rparr>
      else
        (let byTime = sort_key totalDuration scoredRoutes;
             byCost = sort_key totalCost scoredRoutes;
             byScore = sort_key (\<lambda>r. - score_total (scores r)) scoredRoutes;
             the_fastest =
               with_tags (hd byTime)
                 [tag_fastest,
                  tag_faster_by \<lfloor>totalDuration (last byTime) - totalDuration (hd byTime) + 1 / 2\<rfloor>];
             the_cheapest =
               with_tags (hd byCost)
                 [tag_cheapest,
                  tag_cheaper_by \<lfloor>totalCost (last byCost) - totalCost (hd byCost) + 1 / 2\<rfloor>];
             the_recommended =
               with_tags (hd byScore)
                 [tag_recommended, tag_reason (getRecommendReason (hd byScore) scen)]
         in \<lparr> recommended = Some the_recommended,
              fastest = Some the_fastest,
              cheapest = Some the_cheapest \<rparr>))"

section \<open>Planning orchestrator\<close>

text \<open>
  The parameters of \<open>planRoute\<close>. Of \<open>time\<close> the planner reads only \<open>getHours()\<close>, so the
  model carries the hour. \<open>options\<close> is never read.
\<close>

record params =
  origin :: geopoint
  destination :: geopoint
  hour_of_time :: nat
  preference :: preference

record meta =
  meta_scenario :: scenario
  meta_preference :: preference
  totalCandidates :: nat

text \<open>
  The result of \<open>planRoute\<close>; \<open>meta.calculatedAt\<close>, a reading of the clock, is left out.
\<close>

record result = recommendation +
  allRoutes :: "scored_route list"
  meta :: meta

definition planRoute :: "'w amapService \<Rightarrow> params \<Rightarrow> 'w \<Rightarrow> result \<times> 'w" where
  "planRoute amap p w =
     (let scen = detectScenario (origin p) (destination p) (hour_of_time p)
      in case generateAllRoutes amap (origin p) (destination p) w of
           (candidates, w1) \<Rightarrow>
             (let scoredRoutes = calculateScores candidates (preference p) scen;
                  recommendation = recommend scoredRoutes scen (preference p)
              in (\<lparr> recommended = recommended recommendation,
                     fastest = fastest recommendation,
                     cheapest = cheapest recommendation,
                     allRoutes = take 10 scoredRoutes,
                     meta = \<lparr> meta_scenario = scen,
                              meta_preference = preference p,
                              totalCandidates = length candidates \<rparr> \<rparr>, w1)))"

section \<open>Request handlers\<close>









section \<open>The provider's simulated data\<close>

text \<open>\<open>_mockSubwayRoutes\<close> and \<open>_mockDrivingRoute\<close>, which the client serves without an API key.\<close>

definition mockSubwayRoutes :: "transit list" where
  "mockSubwayRoutes =
     [ \<lparr> t_id = ''subway_mock_1'',
         t_duration = 65,
         t_distance = 45000,
         t_cost = 9,
         t_walkDistance = 800,
         t_segments =
           [ Walk 300 4,
             Subway [0x5927, 0x5174, 0x673A, 0x573A, 0x7EBF] [0x5927, 0x5174, 0x673A, 0x573A, 0x7AD9]
               [0x8349, 0x6865, 0x7AD9] 3 20,
             Subway [0x34, 0x53F7, 0x7EBF] [0x8349, 0x6865, 0x7AD9] [0x897F, 0x76F4, 0x95E8, 0x7AD9]
               18 35,
             Subway [0x660C, 0x5E73, 0x7EBF] [0x897F, 0x76F4, 0x95E8, 0x7AD9]
               [0x751F, 0x547D, 0x79D1, 0x5B66, 0x56ED, 0x7AD9] 4 10,
             Walk 500 6 ] \<rparr> ]"

definition mockDrivingRoute :: driving where
  "mockDrivingRoute = \<lparr> d_distance = 52000, d_duration = 78, d_traffic = 25, d_tolls = 0 \<rparr>"

text \<open>
  The client without an API key. Its world is the log of the calls made on it, each with
  the origin and the destination it was given.
\<close>

datatype call = subway_call geopoint geopoint | driving_call geopoint geopoint

definition amap_without_key :: "call list amapService" where
  "amap_without_key =
     \<lparr> getSubwayRoutes = (\<lambda>a b w. (mockSubwayRoutes, w @ [subway_call a b])),
       getDrivingRoute = (\<lambda>a b w. (Some mockDrivingRoute, w @ [driving_call a b])) \<rparr>"

section \<open>Vocabulary of the properties and example inputs\<close>

text \<open>The destination's name is present and contains one of the two hub keywords.\<close>

definition names_hub :: "geopoint \<Rightarrow> bool" where
  "names_hub p =
     (case name p of None \<Rightarrow> False | Some s \<Rightarrow> sublist kw_airport s \<or> sublist kw_railway s)"

text \<open>The time-of-day rules alone, over the hours of a day.\<close>

definition scenario_by_hour :: "nat \<Rightarrow> scenario" where
  "scenario_by_hour h =
     (if h \<in> {23} \<union> {0..<5} then lateNight
      else if h \<in> {7..9} \<union> {17..19} then peak
      else routine)"



definition round_1_decimal :: "real \<Rightarrow> real" where
  "round_1_decimal x = Math_round (x * 10) / 10"

text \<open>
  The two places of the repository's own test: Beijing Daxing International Airport and a
  residential compound in Changping; and a place without a name.
\<close>

definition airport_example :: geopoint where
  "airport_example =
     \<lparr> lng = Some (116410742 / 1000000), lat = Some (39509723 / 1000000),
       name = Some [0x5317, 0x4EAC, 0x5927, 0x5174, 0x56FD, 0x9645, 0x673A, 0x573A] \<rparr>"

definition home_example :: geopoint where
  "home_example =
     \<lparr> lng = Some (116293678 / 1000000), lat = Some (40072345 / 1000000),
       name = Some [0x5317, 0x4EAC, 0x4EBA, 0x5BB6, 0x5C0F, 0x533A, 0x28, 0x660C, 0x5E73, 0x29] \<rparr>"

definition unnamed_example :: geopoint where
  "unnamed_example =
     \<lparr> lng = Some (116293678 / 1000000), lat = Some (40072345 / 1000000), name = None \<rparr>"

definition unnamed_trip :: params where
  "unnamed_trip =
     \<lparr> origin = airport_example, destination = unnamed_example, hour_of_time = 8,
       preference = pref_balance \<rparr>"

text \<open>Three candidates given by their type, duration and cost alone.\<close>

definition plain_route :: "route_type \<Rightarrow> real \<Rightarrow> real \<Rightarrow> route" where
  "plain_route ty minutes yuan =
     \<lparr> ident = taxi_full, rtype = ty, segments = [], totalDuration = minutes,
       totalCost = yuan, totalDistance = 0 \<rparr>"

definition scoring_example :: "route list" where
  "scoring_example = [plain_route subway 65 9, plain_route taxi 83 (1647 / 10), plain_route mixed 146 9]"

text \<open>
  A candidate "has a short taxi leg" when one of its taxi segments has a distance of at
  most 2000 m.
\<close>

definition short_taxi_leg :: "segment \<Rightarrow> bool" where
  "short_taxi_leg s = (case s of Taxi t \<Rightarrow> tx_distance t \<le> 2000 | _ \<Rightarrow> False)"

definition has_short_taxi_leg :: "route \<Rightarrow> bool" where
  "has_short_taxi_leg r = list_ex short_taxi_leg (segments r)"

text \<open>Fourteen hybrid candidates, two of them with a short taxi leg.\<close>

definition hybrid_example :: "real \<Rightarrow> real \<Rightarrow> real \<Rightarrow> route" where
  "hybrid_example meters minutes yuan =
     \<lparr> ident = mixed_start_taxi None,
       rtype = mixed,
       segments =
         [Taxi \<lparr> tx_from = None, tx_to = None, tx_distance = meters, tx_duration = 10,
                 tx_cost = 20, tx_waitTime = 3 \<rparr>,
          Walk 100 2],
       totalDuration = minutes,
       totalCost = yuan,
       totalDistance = meters \<rparr>"

definition prune_example :: "route list" where
  "prune_example =
     [ hybrid_example 1500 20 25, hybrid_example 5000 52 30, hybrid_example 5000 51 30,
       hybrid_example 2000 10 25, hybrid_example 5000 50 30, hybrid_example 5000 49 30,
       hybrid_example 5000 48 30, hybrid_example 5000 47 30, hybrid_example 5000 46 30,
       hybrid_example 5000 45 30, hybrid_example 5000 44 30, hybrid_example 5000 43 30,
       hybrid_example 5000 42 30, hybrid_example 5000 41 30 ]"

text \<open>A provider that finds no transit itinerary and no driving estimate.\<close>

definition amap_unreachable :: "unit amapService" where
  "amap_unreachable =
     \<lparr> getSubwayRoutes = (\<lambda>a b w. ([], w)), getDrivingRoute = (\<lambda>a b w. (None, w)) \<rparr>"

text \<open>The trip of the repository's test: airport to home at 18 h, balanced preference.\<close>

definition example_trip :: params where
  "example_trip =
     \<lparr> origin = airport_example, destination = home_example, hour_of_time = 18,
       preference = pref_balance \<rparr>"

text \<open>
  A provider whose transit itinerary for the whole trip is slow (300 minutes) while every
  other transit leg takes 60 minutes and every drive is 5 km in 40 minutes; and a trip
  planned by it at noon with the preference for time.
\<close>

definition one_line :: "real \<Rightarrow> transit" where
  "one_line minutes =
     \<lparr> t_id = ''subway_0'', t_duration = minutes, t_distance = 45000, t_cost = 9,
       t_walkDistance = 0,
       t_segments = [Subway [0x34, 0x53F7, 0x7EBF] [0x8349, 0x6865, 0x7AD9] [0x897F, 0x5355, 0x7AD9] 10 minutes] \<rparr>"

definition amap_slow_subway :: "unit amapService" where
  "amap_slow_subway =
     \<lparr> getSubwayRoutes =
         (\<lambda>a b w. (if a = airport_example \<and> b = home_example then [one_line 300] else [one_line 60], w)),
       getDrivingRoute =
         (\<lambda>a b w. (Some \<lparr> d_distance = 5000, d_duration = 40, d_traffic = 0, d_tolls = 0 \<rparr>, w)) \<rparr>"

definition slow_trip :: params where
  "slow_trip =
     \<lparr> origin = airport_example, destination = home_example, hour_of_time = 12,
       preference = pref_time \<rparr>"


definition slow_candidates :: "route list" where
  "slow_candidates =
     fst (generateAllRoutes amap_slow_subway (origin slow_trip) (destination slow_trip) ())"

text \<open>The candidates of the repository's test trip, served from the simulated data.\<close>

definition mock_candidates :: "route list" where
  "mock_candidates =
     fst (generateAllRoutes amap_without_key (origin example_trip) (destination example_trip) [])"

text \<open>
  The sum of one field over the segments of an itinerary; a segment that lacks the field
  adds nothing.
\<close>

definition sum_field :: "(segment \<Rightarrow> real option) \<Rightarrow> segment list \<Rightarrow> real" where
  "sum_field f segs = sum_list (map (\<lambda>s. case f s of None \<Rightarrow> 0 | Some x \<Rightarrow> x) segs)"

text \<open>
  How the generator composes an itinerary: taxi legs before and after the segments of one
  transit itinerary of the provider. Each total is the sum of the field over the taxi legs
  plus the provider's own figure for the transit itinerary as a whole.
\<close>

definition totals_from_legs :: "taxi_segment list \<Rightarrow> transit \<Rightarrow> taxi_segment list \<Rightarrow> route \<Rightarrow> bool" where
  "totals_from_legs before t after r =
     (segments r = map Taxi before @ t_segments t @ map Taxi after \<and>
      totalDuration r = sum_list (map tx_duration (before @ after)) + t_duration t \<and>
      totalCost r = sum_list (map tx_cost (before @ after)) + t_cost t \<and>
      totalDistance r = sum_list (map tx_distance (before @ after)) + t_distance t)"

text \<open>
  The pure-taxi itinerary: one taxi segment; cost and distance are the segment's, the
  duration is the segment's plus its waiting time.
\<close>

definition taxi_only_totals :: "taxi_segment \<Rightarrow> route \<Rightarrow> bool" where
  "taxi_only_totals x r =
     (segments r = [Taxi x] \<and>
      totalDuration r = tx_duration x + tx_waitTime x \<and>
      totalCost r = tx_cost x \<and>
      totalDistance r = tx_distance x)"

text \<open>
  What ties a candidate to the provider. A transit itinerary "answers" a query when it is
  the first itinerary the provider returns for that origin and destination, in some state
  of the world; a taxi leg of a hybrid "answers" a query when the provider returns a
  driving estimate for it and the leg has the estimate's distance, the estimate's
  duration plus 3 minutes of waiting, and the hybrid generator's fare for the estimate.
\<close>

definition transit_answer :: "'w amapService \<Rightarrow> geopoint \<Rightarrow> geopoint \<Rightarrow> transit \<Rightarrow> bool" where
  "transit_answer amap a b t =
     (\<exists>w0 others w1. getSubwayRoutes amap a b w0 = (t # others, w1))"

definition taxi_leg_answer ::
  "'w amapService \<Rightarrow> geopoint \<Rightarrow> geopoint \<Rightarrow> taxi_segment \<Rightarrow> bool" where
  "taxi_leg_answer amap a b x =
     (\<exists>w0 drv w1. getDrivingRoute amap a b w0 = (Some drv, w1) \<and>
        tx_distance x = d_distance drv \<and>
        tx_duration x = d_duration drv + 3 \<and>
        tx_waitTime x = 3 \<and>
        tx_cost x = mixed_estimateTaxiCost (d_distance drv) (d_duration drv))"

text \<open>
  A pure-subway candidate: one of the itineraries the provider returns for the trip, with
  the provider's segments and the provider's own duration, cost and distance.
\<close>

definition subway_kind :: "'w amapService \<Rightarrow> geopoint \<Rightarrow> geopoint \<Rightarrow> 'w \<Rightarrow> route \<Rightarrow> bool" where
  "subway_kind amap orig dest w r =
     (rtype r = subway \<and>
      list_ex (\<lambda>t. totals_from_legs [] t [] r) (fst (getSubwayRoutes amap orig dest w)))"

text \<open>
  The pure-taxi candidate: the provider's driving estimate for the trip, asked after the
  transit query; one taxi segment with the estimate's distance and duration, 5 minutes of
  waiting and the planner's fare without surcharge.
\<close>

definition taxi_kind :: "'w amapService \<Rightarrow> geopoint \<Rightarrow> geopoint \<Rightarrow> 'w \<Rightarrow> route \<Rightarrow> bool" where
  "taxi_kind amap orig dest w r =
     (rtype r = taxi \<and>
      (\<exists>drv x.
         fst (getDrivingRoute amap orig dest (snd (getSubwayRoutes amap orig dest w))) = Some drv \<and>
         taxi_only_totals x r \<and>
         tx_distance x = d_distance drv \<and>
         tx_duration x = d_duration drv \<and>
         tx_waitTime x = 5 \<and>
         tx_cost x = estimateTaxiCost (d_distance drv) (d_duration drv) routine))"

text \<open>
  The three hybrid strategies over their stations: a taxi leg to a station and transit
  from there; transit to a station and a taxi leg from there; a taxi leg, transit between
  two stations, and a taxi leg.
\<close>

definition start_taxi_kind ::
  "'w amapService \<Rightarrow> geopoint \<Rightarrow> geopoint \<Rightarrow> geopoint list \<Rightarrow> route \<Rightarrow> bool" where
  "start_taxi_kind amap orig dest sts r =
     list_ex (\<lambda>st. \<exists>x t. taxi_leg_answer amap orig st x \<and> transit_answer amap st dest t \<and>
                totals_from_legs [x] t [] r) sts"

definition end_taxi_kind ::
  "'w amapService \<Rightarrow> geopoint \<Rightarrow> geopoint \<Rightarrow> geopoint list \<Rightarrow> route \<Rightarrow> bool" where
  "end_taxi_kind amap orig dest sts r =
     list_ex (\<lambda>st. \<exists>t x. transit_answer amap orig st t \<and> taxi_leg_answer amap st dest x \<and>
                totals_from_legs [] t [x] r) sts"

definition both_taxi_kind ::
  "'w amapService \<Rightarrow> geopoint \<Rightarrow> geopoint \<Rightarrow> geopoint list \<Rightarrow> geopoint list \<Rightarrow> route \<Rightarrow> bool"
  where
  "both_taxi_kind amap orig dest starts ends r =
     list_ex (\<lambda>s1. list_ex (\<lambda>s2. \<exists>x t y.
                taxi_leg_answer amap orig s1 x \<and> transit_answer amap s1 s2 t \<and>
                taxi_leg_answer amap s2 dest y \<and> totals_from_legs [x] t [y] r) ends) starts"

definition hybrid_kind :: "'w amapService \<Rightarrow> geopoint \<Rightarrow> geopoint \<Rightarrow> route \<Rightarrow> bool" where
  "hybrid_kind amap orig dest r =
     (let sts = getSubwayStationsAlongRoute orig dest in
      rtype r = mixed \<and>
      (start_taxi_kind amap orig dest (take 5 sts) r \<or>
       end_taxi_kind amap orig dest (drop (length sts - 5) sts) r \<or>
       both_taxi_kind amap orig dest (take 2 sts) (drop (length sts - 2) sts) r))"










section \<open>Scenario detection\<close>

lemma starts_with_prefix: "starts_with s key = prefix key s"
  by (induction s key rule: starts_with.induct) auto

lemma str_includes_sublist: "str_includes s key = sublist key s"
proof (induction s)
  case Nil
  show ?case by (cases key) simp_all
next
  case (Cons c cs)
  then show ?case by (simp add: sublist_Cons_right starts_with_prefix)
qed

lemma opt_includes_hub:
  "(opt_includes (name p) kw_airport \<or> opt_includes (name p) kw_railway) = names_hub p"
  by (simp add: opt_includes_def names_hub_def str_includes_sublist split: option.splits)

lemma names_hub_airport_example: "names_hub airport_example"
  by (simp add: names_hub_def airport_example_def kw_airport_def kw_railway_def
      str_includes_sublist [symmetric])

lemma names_hub_home_example: "\<not> names_hub home_example"
  by (simp add: names_hub_def home_example_def kw_airport_def kw_railway_def
      str_includes_sublist [symmetric])

text \<open>
  Claim C6. Scenario detection yields one label for a destination and an hour:
  \<open>rushToCatch\<close> whenever the destination's name contains an airport or railway-station
  keyword, whatever the hour; otherwise \<open>lateNight\<close> at hour 23 and at hours 0 to 4;
  otherwise \<open>peak\<close> at hours 7 to 9 and 17 to 19; otherwise \<open>routine\<close>.
\<close>

theorem detectScenario_labels:
  "(names_hub dest \<longrightarrow> detectScenario orig dest hour = rushToCatch) \<and>
   (\<not> names_hub dest \<and> hour \<in> {23} \<union> {0..<5} \<longrightarrow>
      detectScenario orig dest hour = lateNight) \<and>
   (\<not> names_hub dest \<and> hour \<in> {7..9} \<union> {17..19} \<longrightarrow>
      detectScenario orig dest hour = peak) \<and>
   (\<not> names_hub dest \<and> hour \<in> {5, 6} \<union> {10..16} \<union> {20..22} \<longrightarrow>
      detectScenario orig dest hour = routine)"
  by (auto simp: detectScenario_def opt_includes_hub)

theorem detectScenario_labels_witness:
  "names_hub airport_example \<and>
   detectScenario home_example airport_example 23 = rushToCatch \<and>
   detectScenario airport_example home_example 23 = lateNight \<and>
   detectScenario airport_example home_example 18 = peak \<and>
   detectScenario airport_example home_example 12 = routine"
  using detectScenario_labels [of airport_example home_example 23]
    detectScenario_labels [of home_example airport_example 23]
    detectScenario_labels [of home_example airport_example 18]
    detectScenario_labels [of home_example airport_example 12]
    names_hub_airport_example names_hub_home_example
  by simp

lemma planRoute_meta_scenario:
  "meta_scenario (meta (fst (planRoute amap p w))) =
     detectScenario (origin p) (destination p) (hour_of_time p)"
  by (simp add: planRoute_def Let_def split: prod.splits)

text \<open>
  Claim C10. When the destination has no name, the keyword test is skipped without a
  failure and the scenario follows from the hour alone, by the rules for \<open>lateNight\<close>,
  \<open>peak\<close> and \<open>routine\<close>; \<open>planRoute\<close> returns its result with that scenario.
\<close>

theorem unnamed_destination_by_hour:
  assumes "name (destination p) = None" and "hour_of_time p < 24"
  shows "detectScenario (origin p) (destination p) (hour_of_time p)
           = scenario_by_hour (hour_of_time p) \<and>
         meta_scenario (meta (fst (planRoute amap p w))) = scenario_by_hour (hour_of_time p)"
  using assms
  by (auto simp: planRoute_meta_scenario detectScenario_def opt_includes_def
      scenario_by_hour_def)

theorem unnamed_destination_by_hour_witness:
  "name (destination unnamed_trip) = None \<and> hour_of_time unnamed_trip < 24 \<and>
   detectScenario (origin unnamed_trip) (destination unnamed_trip) 8 = peak \<and>
   meta_scenario (meta (fst (planRoute amap_without_key unnamed_trip []))) = peak"
  using unnamed_destination_by_hour [of unnamed_trip amap_without_key "[]"]
  by (simp add: unnamed_trip_def unnamed_example_def scenario_by_hour_def)

section \<open>Taxi cost\<close>



lemma Math_round_mono: "x \<le> y \<Longrightarrow> Math_round x \<le> Math_round y"
  by (simp add: Math_round_def floor_mono)












section \<open>Scoring\<close>

lemma axis_score_bounds:
  assumes "lo \<le> v" and "v \<le> hi"
  shows "0 \<le> axis_score lo hi v \<and> axis_score lo hi v \<le> 100"
proof (cases "hi = lo")
  case True
  then show ?thesis by (simp add: axis_score_def)
next
  case False
  with assms have pos: "0 < hi - lo" by simp
  define q where "q = (v - lo) / (hi - lo)"
  have "0 \<le> q" using assms pos by (simp add: q_def)
  moreover have "q \<le> 1" using assms pos by (simp add: q_def)
  moreover have "axis_score lo hi v = 100 * (1 - q)"
    using False by (simp only: axis_score_def q_def if_False)
  ultimately show ?thesis by simp
qed

lemma axis_score_at_min: "axis_score lo hi lo = 100"
  by (simp add: axis_score_def)

lemma axis_score_at_max: "lo \<noteq> hi \<Longrightarrow> axis_score lo hi hi = 0"
  by (simp add: axis_score_def)

lemma Math_round_0: "Math_round 0 = 0"
  by (simp add: Math_round_def)

lemma Math_round_100: "Math_round 100 = 100"
  by (simp add: Math_round_def)

lemma Math_round_bounds:
  "0 \<le> x \<and> x \<le> 100 \<Longrightarrow> 0 \<le> Math_round x \<and> Math_round x \<le> 100"
  using Math_round_mono [of 0 x] Math_round_mono [of x 100]
  by (simp add: Math_round_0 Math_round_100)

lemma scores_score_route:
  "score_time (scores (score_route a b c d pref scen r)) = Math_round (axis_score a b (totalDuration r))"
  "score_cost (scores (score_route a b c d pref scen r)) = Math_round (axis_score c d (totalCost r))"
  by (simp_all add: score_route_def Let_def)

lemma calculateScores_length: "length (calculateScores routes pref scen) = length routes"
  by (simp add: calculateScores_def Let_def)

lemma calculateScores_nth:
  assumes "i < length routes"
  shows "calculateScores routes pref scen ! i =
    score_route (Min (set (map totalDuration routes))) (Max (set (map totalDuration routes)))
      (Min (set (map totalCost routes))) (Max (set (map totalCost routes))) pref scen (routes ! i)"
  using assms by (auto simp: calculateScores_def Let_def)

lemma Min_eq_least:
  fixes f :: "'a \<Rightarrow> real"
  assumes "r \<in> set xs" and "\<forall>q\<in>set xs. f r \<le> f q"
  shows "Min (set (map f xs)) = f r"
  using assms by (intro Min_eqI) auto

lemma Max_eq_greatest:
  fixes f :: "'a \<Rightarrow> real"
  assumes "r \<in> set xs" and "\<forall>q\<in>set xs. f q \<le> f r"
  shows "Max (set (map f xs)) = f r"
  using assms by (intro Max_eqI) auto

lemma Min_le_elem:
  fixes f :: "'a \<Rightarrow> real"
  shows "r \<in> set xs \<Longrightarrow> Min (set (map f xs)) \<le> f r"
  by (intro Min_le) auto

lemma elem_le_Max:
  fixes f :: "'a \<Rightarrow> real"
  shows "r \<in> set xs \<Longrightarrow> f r \<le> Max (set (map f xs))"
  by (intro Max_ge) auto

lemma Min_ne_Max:
  fixes f :: "'a \<Rightarrow> real"
  assumes "r \<in> set xs" and "q \<in> set xs" and "f q \<noteq> f r"
  shows "Min (set (map f xs)) \<noteq> Max (set (map f xs))"
proof
  assume eq: "Min (set (map f xs)) = Max (set (map f xs))"
  have "f q \<le> Max (set (map f xs))" "Min (set (map f xs)) \<le> f q"
       "f r \<le> Max (set (map f xs))" "Min (set (map f xs)) \<le> f r"
    using assms by (simp_all add: Min_le_elem elem_le_Max)
  with eq assms(3) show False by linarith
qed

lemma axis_normalised:
  fixes f :: "route \<Rightarrow> real"
  assumes "r \<in> set routes"
  defines "s \<equiv> Math_round (axis_score (Min (set (map f routes))) (Max (set (map f routes))) (f r))"
  shows "0 \<le> s \<and> s \<le> 100 \<and>
    ((\<forall>q\<in>set routes. f r \<le> f q) \<longrightarrow> s = 100) \<and>
    ((\<forall>q\<in>set routes. f q \<le> f r) \<and> (\<exists>q\<in>set routes. f q \<noteq> f r) \<longrightarrow> s = 0) \<and>
    ((\<forall>q\<in>set routes. f q = f r) \<longrightarrow> s = 100)"
proof -
  have b: "0 \<le> s \<and> s \<le> 100"
    unfolding s_def using assms(1)
    by (intro Math_round_bounds axis_score_bounds Min_le_elem elem_le_Max)
  have lo: "(\<forall>q\<in>set routes. f r \<le> f q) \<longrightarrow> s = 100"
  proof
    assume "\<forall>q\<in>set routes. f r \<le> f q"
    with assms(1) have m: "Min (set (map f routes)) = f r" by (rule Min_eq_least)
    show "s = 100" unfolding s_def m axis_score_at_min by (rule Math_round_100)
  qed
  have hi: "(\<forall>q\<in>set routes. f q \<le> f r) \<and> (\<exists>q\<in>set routes. f q \<noteq> f r) \<longrightarrow> s = 0"
  proof (intro impI, elim conjE bexE)
    fix q assume g: "\<forall>q\<in>set routes. f q \<le> f r" and q: "q \<in> set routes" "f q \<noteq> f r"
    have m: "Max (set (map f routes)) = f r" using assms(1) g by (rule Max_eq_greatest)
    have "Min (set (map f routes)) \<noteq> Max (set (map f routes))"
      using assms(1) q by (rule Min_ne_Max)
    then have "axis_score (Min (set (map f routes))) (Max (set (map f routes))) (f r) = 0"
      unfolding m [symmetric] by (rule axis_score_at_max)
    then show "s = 0" by (simp add: s_def Math_round_0)
  qed
  have tie: "(\<forall>q\<in>set routes. f q = f r) \<longrightarrow> s = 100"
    using lo by auto
  from b lo hi tie show ?thesis by blast
qed

text \<open>
  Claim C5. For a nonempty candidate set, on the time axis and on the cost axis alike:
  every score lies between 0 and 100; a candidate whose raw value (\<open>totalDuration\<close>,
  \<open>totalCost\<close>) is the least of the set scores 100; a candidate whose raw value is the
  greatest scores 0, unless all candidates share one value; and when all candidates share
  one value, each scores 100.
\<close>

theorem axis_scores_normalised:
  assumes "routes \<noteq> []" and "i < length routes"
  shows "length (calculateScores routes pref scen) = length routes \<and>
    (let r = routes ! i; sc = scores (calculateScores routes pref scen ! i) in
       0 \<le> score_time sc \<and> score_time sc \<le> 100 \<and>
       ((\<forall>q\<in>set routes. totalDuration r \<le> totalDuration q) \<longrightarrow> score_time sc = 100) \<and>
       ((\<forall>q\<in>set routes. totalDuration q \<le> totalDuration r) \<and>
        (\<exists>q\<in>set routes. totalDuration q \<noteq> totalDuration r) \<longrightarrow> score_time sc = 0) \<and>
       ((\<forall>q\<in>set routes. totalDuration q = totalDuration r) \<longrightarrow> score_time sc = 100) \<and>
       0 \<le> score_cost sc \<and> score_cost sc \<le> 100 \<and>
       ((\<forall>q\<in>set routes. totalCost r \<le> totalCost q) \<longrightarrow> score_cost sc = 100) \<and>
       ((\<forall>q\<in>set routes. totalCost q \<le> totalCost r) \<and>
        (\<exists>q\<in>set routes. totalCost q \<noteq> totalCost r) \<longrightarrow> score_cost sc = 0) \<and>
       ((\<forall>q\<in>set routes. totalCost q = totalCost r) \<longrightarrow> score_cost sc = 100))"
proof -
  have mem: "routes ! i \<in> set routes" using assms(2) by simp
  note t = axis_normalised [OF mem, of totalDuration]
  note c = axis_normalised [OF mem, of totalCost]
  show ?thesis
    unfolding Let_def calculateScores_nth [OF assms(2)] scores_score_route
    using t c by (simp add: calculateScores_length)
qed

theorem axis_scores_normalised_witness:
  "scoring_example \<noteq> [] \<and>
   score_time (scores (calculateScores scoring_example pref_balance peak ! 0)) = 100 \<and>
   score_time (scores (calculateScores scoring_example pref_balance peak ! 2)) = 0 \<and>
   score_cost (scores (calculateScores scoring_example pref_balance peak ! 2)) = 100 \<and>
   score_cost (scores (calculateScores scoring_example pref_balance peak ! 1)) = 0"
  using axis_scores_normalised [of scoring_example 0 pref_balance peak]
    axis_scores_normalised [of scoring_example 1 pref_balance peak]
    axis_scores_normalised [of scoring_example 2 pref_balance peak]
  by (simp add: scoring_example_def plain_route_def Let_def)


section \<open>Pruning\<close>

lemma taxi_leg_long_iff: "is_taxi s \<Longrightarrow> taxi_leg_long s = (\<not> short_taxi_leg s)"
  by (cases s) (auto simp: taxi_leg_long_def short_taxi_leg_def)

lemma short_taxi_leg_is_taxi: "short_taxi_leg s \<Longrightarrow> is_taxi s"
  by (cases s) (auto simp: short_taxi_leg_def)

lemma worth_keeping_iff: "worth_keeping r = (\<not> has_short_taxi_leg r)"
  unfolding worth_keeping_def has_short_taxi_leg_def Let_def list_all_iff list_ex_iff
  using taxi_leg_long_iff short_taxi_leg_is_taxi by auto

lemma prune_key_formula: "prune_key = (\<lambda>r. totalDuration r + 2 * totalCost r)"
  by (rule ext) (simp add: prune_key_def)

lemma pruneRoutes_eq:
  "pruneRoutes routes = take 10 (sort_key prune_key (filter (\<lambda>r. \<not> has_short_taxi_leg r) routes))"
proof -
  have "worth_keeping = (\<lambda>r. \<not> has_short_taxi_leg r)"
    by (rule ext) (rule worth_keeping_iff)
  then show ?thesis by (simp add: pruneRoutes_def Let_def)
qed

lemma mset_minus_take: "mset xs - mset (take n xs) = mset (drop n xs)"
proof -
  have "mset xs = mset (take n xs) + mset (drop n xs)"
    by (metis append_take_drop_id mset_append)
  then show ?thesis by simp
qed

lemma sorted_take_le_drop:
  assumes "sorted (map k xs)" and "q \<in> set (take n xs)" and "r \<in> set (drop n xs)"
  shows "k q \<le> k r"
proof -
  have "sorted (map k (take n xs) @ map k (drop n xs))"
    using assms(1) by (metis append_take_drop_id map_append)
  then show ?thesis using assms(2,3) by (auto simp: sorted_append)
qed

text \<open>
  Claim C4. \<open>prune\<close> drops the candidates that have a taxi segment of at most 2000 m and
  returns the others sorted ascending by \<open>totalDuration + 2 * totalCost\<close>, cut to at
  most 10: the output holds only survivors of the input (with their multiplicities), its
  length is the lesser of 10 and the number of survivors, it is sorted by that key, and
  every survivor left out by the cut has a key no smaller than any kept.
\<close>

theorem pruneRoutes_spec:
  "let survivors = filter (\<lambda>r. \<not> has_short_taxi_leg r) routes;
       out = pruneRoutes routes in
     mset out \<subseteq># mset survivors \<and>
     (\<forall>r\<in>set out. r \<in> set routes \<and> \<not> has_short_taxi_leg r) \<and>
     length out = min 10 (length survivors) \<and>
     sorted (map (\<lambda>r. totalDuration r + 2 * totalCost r) out) \<and>
     (\<forall>q\<in>set out. \<forall>r\<in>#(mset survivors - mset out).
        totalDuration q + 2 * totalCost q \<le> totalDuration r + 2 * totalCost r)"
proof -
  define survivors where "survivors = filter (\<lambda>r. \<not> has_short_taxi_leg r) routes"
  define L where "L = sort_key prune_key survivors"
  have out: "pruneRoutes routes = take 10 L"
    by (simp add: pruneRoutes_eq L_def survivors_def)
  have msetL: "mset L = mset survivors" by (simp add: L_def)
  have sortedL: "sorted (map prune_key L)" by (simp add: L_def)
  have 1: "mset (take 10 L) \<subseteq># mset survivors"
    unfolding msetL [symmetric] by (metis append_take_drop_id mset_append mset_subset_eq_add_left)
  have 2: "\<forall>r\<in>set (take 10 L). r \<in> set routes \<and> \<not> has_short_taxi_leg r"
  proof
    fix r assume "r \<in> set (take 10 L)"
    then have "r \<in> set L" by (rule in_set_takeD)
    then have "r \<in> set survivors" using msetL by (metis set_mset_mset)
    then show "r \<in> set routes \<and> \<not> has_short_taxi_leg r" by (simp add: survivors_def)
  qed
  have 3: "length (take 10 L) = min 10 (length survivors)"
    by (simp add: L_def min.commute)
  have 4: "sorted (map prune_key (take 10 L))"
    using sortedL by (simp add: take_map [symmetric] sorted_wrt_take)
  have 5: "\<forall>q\<in>set (take 10 L). \<forall>r\<in>#(mset survivors - mset (take 10 L)). prune_key q \<le> prune_key r"
    unfolding msetL [symmetric] mset_minus_take
    using sorted_take_le_drop [OF sortedL] by auto
  show ?thesis
    unfolding Let_def survivors_def [symmetric] out
    using 1 2 3 4 5 by (simp add: prune_key_formula)
qed

theorem pruneRoutes_spec_witness:
  "length (filter (\<lambda>r. \<not> has_short_taxi_leg r) prune_example) = 12 \<and>
   length (pruneRoutes prune_example) = 10 \<and>
   sorted (map (\<lambda>r. totalDuration r + 2 * totalCost r) (pruneRoutes prune_example)) \<and>
   mset (pruneRoutes prune_example) \<subseteq># mset (filter (\<lambda>r. \<not> has_short_taxi_leg r) prune_example)"
proof -
  have n: "length (filter (\<lambda>r. \<not> has_short_taxi_leg r) prune_example) = 12"
    by (simp add: prune_example_def hybrid_example_def has_short_taxi_leg_def short_taxi_leg_def)
  show ?thesis
    using pruneRoutes_spec [of prune_example] n by (simp add: Let_def)
qed

section \<open>Planning with no candidate\<close>

lemma pruneRoutes_Nil: "pruneRoutes [] = []"
  by (simp add: pruneRoutes_def)

lemma generateAllRoutes_unreachable:
  "generateAllRoutes amap_unreachable a b () = ([], ())"
  by (simp add: generateAllRoutes_def generateTaxiRoute_def generateMixedRoutes_def
      generateStartTaxiRoutes_def generateEndTaxiRoutes_def generateBothTaxiRoutes_def
      getSubwayStationsAlongRoute_def calculateTaxiSegment_def amap_unreachable_def
      pruneRoutes_Nil Let_def)

text \<open>
  Claim C9. When candidate generation yields no candidate, \<open>planRoute\<close> returns a
  result, not an error: \<open>recommended\<close>, \<open>fastest\<close> and \<open>cheapest\<close> are \<open>null\<close>,
  \<open>allRoutes\<close> is empty and \<open>meta.totalCandidates\<close> is 0.
\<close>

theorem no_candidates_result:
  assumes "fst (generateAllRoutes amap (origin p) (destination p) w) = []"
  shows "recommended (fst (planRoute amap p w)) = None \<and>
         fastest (fst (planRoute amap p w)) = None \<and>
         cheapest (fst (planRoute amap p w)) = None \<and>
         allRoutes (fst (planRoute amap p w)) = [] \<and>
         totalCandidates (meta (fst (planRoute amap p w))) = 0"
  using assms
  by (cases "generateAllRoutes amap (origin p) (destination p) w")
    (simp add: planRoute_def Let_def calculateScores_def recommend_def)

theorem no_candidates_result_witness:
  "fst (generateAllRoutes amap_unreachable (origin example_trip) (destination example_trip) ()) = [] \<and>
   recommended (fst (planRoute amap_unreachable example_trip ())) = None \<and>
   fastest (fst (planRoute amap_unreachable example_trip ())) = None \<and>
   cheapest (fst (planRoute amap_unreachable example_trip ())) = None \<and>
   allRoutes (fst (planRoute amap_unreachable example_trip ())) = [] \<and>
   totalCandidates (meta (fst (planRoute amap_unreachable example_trip ()))) = 0"
proof -
  have h: "fst (generateAllRoutes amap_unreachable (origin example_trip) (destination example_trip) ()) = []"
    by (simp add: generateAllRoutes_unreachable)
  from h no_candidates_result [OF h] show ?thesis by simp
qed


section \<open>The list of all routes\<close>

lemmas gen_defs = generateAllRoutes_def generateTaxiRoute_def generateMixedRoutes_def
      generateStartTaxiRoutes_def generateEndTaxiRoutes_def generateBothTaxiRoutes_def
      getSubwayStationsAlongRoute_def calculateTaxiSegment_def
      pruneRoutes_def Let_def estimateTaxiCost_def mixed_estimateTaxiCost_def
      Math_round_def Math_floor_def station_def start_taxi_route_def end_taxi_route_def both_taxi_route_def
      subway_candidate_def worth_keeping_def taxi_leg_long_def prune_key_def airport_example_def home_example_def
      calculateComfortScore_def wait_or_0_def

lemma slow_candidates_figures:
  "map (\<lambda>r. (totalDuration r, totalCost r, calculateComfortScore r)) slow_candidates =
     [(300, 9, 100), (45, 188 / 5, 90),
      (103, 233 / 5, 94), (103, 233 / 5, 94), (103, 233 / 5, 94), (103, 233 / 5, 94),
      (103, 233 / 5, 94), (103, 233 / 5, 94), (103, 233 / 5, 94), (103, 233 / 5, 94),
      (103, 233 / 5, 94), (103, 233 / 5, 94)]"
  by (simp add: slow_candidates_def gen_defs amap_slow_subway_def slow_trip_def one_line_def)


lemma slow_candidates_durations:
  "map totalDuration slow_candidates = [300, 45, 103, 103, 103, 103, 103, 103, 103, 103, 103, 103]"
proof -
  have "map totalDuration slow_candidates =
        map fst (map (\<lambda>r. (totalDuration r, totalCost r, calculateComfortScore r)) slow_candidates)"
    by simp
  then show ?thesis unfolding slow_candidates_figures by simp
qed

lemma slow_candidates_costs:
  "map totalCost slow_candidates =
     [9, 188 / 5, 233 / 5, 233 / 5, 233 / 5, 233 / 5, 233 / 5, 233 / 5, 233 / 5, 233 / 5,
      233 / 5, 233 / 5]"
proof -
  have "map totalCost slow_candidates =
        map (fst \<circ> snd) (map (\<lambda>r. (totalDuration r, totalCost r, calculateComfortScore r)) slow_candidates)"
    by simp
  then show ?thesis unfolding slow_candidates_figures by simp
qed

lemma slow_candidates_comforts:
  "map calculateComfortScore slow_candidates = [100, 90, 94, 94, 94, 94, 94, 94, 94, 94, 94, 94]"
proof -
  have "map calculateComfortScore slow_candidates =
        map (snd \<circ> snd) (map (\<lambda>r. (totalDuration r, totalCost r, calculateComfortScore r)) slow_candidates)"
    by simp
  then show ?thesis unfolding slow_candidates_figures by simp
qed

lemma slow_candidates_length: "length slow_candidates = 12"
  using arg_cong [OF slow_candidates_durations, of length] by simp

lemma calculateScores_total:
  assumes "i < length routes"
  shows "score_total (scores (calculateScores routes pref scen ! i)) =
     round_1_decimal
       ((axis_score (Min (set (map totalDuration routes))) (Max (set (map totalDuration routes)))
           (map totalDuration routes ! i) * w_time (getWeights pref scen)
         + axis_score (Min (set (map totalCost routes))) (Max (set (map totalCost routes)))
             (map totalCost routes ! i) * w_cost (getWeights pref scen)
         + map calculateComfortScore routes ! i * w_comfort (getWeights pref scen)) / 100)"
  using assms
  by (simp add: calculateScores_nth score_route_def Let_def round_1_decimal_def)

lemma planRoute_allRoutes:
  "allRoutes (fst (planRoute amap p w)) =
     take 10 (calculateScores (fst (generateAllRoutes amap (origin p) (destination p) w))
       (preference p) (detectScenario (origin p) (destination p) (hour_of_time p)))"
  by (cases "generateAllRoutes amap (origin p) (destination p) w")
    (simp add: planRoute_def Let_def)

lemma slow_trip_scenario:
  "detectScenario (origin slow_trip) (destination slow_trip) (hour_of_time slow_trip) = routine"
  by (simp add: slow_trip_def detectScenario_def opt_includes_hub names_hub_home_example)

lemma slow_total_0: "score_total (scores (calculateScores slow_candidates pref_time routine ! 0)) = 3 / 10"
  by (simp add: calculateScores_total slow_candidates_length slow_candidates_durations
     slow_candidates_costs slow_candidates_comforts axis_score_def getWeights_def round_1_decimal_def Math_round_def)

lemma slow_total_1: "score_total (scores (calculateScores slow_candidates pref_time routine ! Suc 0)) = 4 / 5"
  by (simp add: calculateScores_total slow_candidates_length slow_candidates_durations
     slow_candidates_costs slow_candidates_comforts axis_score_def getWeights_def round_1_decimal_def Math_round_def)

lemma slow_total_10: "score_total (scores (calculateScores slow_candidates pref_time routine ! 10)) = 3 / 5"
  by (simp add: calculateScores_total slow_candidates_length slow_candidates_durations
     slow_candidates_costs slow_candidates_comforts axis_score_def getWeights_def round_1_decimal_def Math_round_def)

text \<open>
  Claim C2, as stated, fails. For the slow-subway provider twelve candidates are scored.
  \<open>allRoutes\<close> holds the first ten in generation order: its first entry has the
  composite score 0.3 and its second 0.8, so it is not in descending order; and the
  eleventh scored candidate, which is left out, has the score 0.6, above the 0.3 of an
  entry that is kept.
\<close>

theorem allRoutes_by_score_counterexample:
  "length (calculateScores slow_candidates (preference slow_trip) routine) = 12 \<and>
   length (allRoutes (fst (planRoute amap_slow_subway slow_trip ()))) = 10 \<and>
   allRoutes (fst (planRoute amap_slow_subway slow_trip ())) ! 0
     = calculateScores slow_candidates (preference slow_trip) routine ! 0 \<and>
   allRoutes (fst (planRoute amap_slow_subway slow_trip ())) ! 1
     = calculateScores slow_candidates (preference slow_trip) routine ! 1 \<and>
   score_total (scores (allRoutes (fst (planRoute amap_slow_subway slow_trip ())) ! 0)) = 3 / 10 \<and>
   score_total (scores (allRoutes (fst (planRoute amap_slow_subway slow_trip ())) ! 1)) = 4 / 5 \<and>
   score_total (scores (calculateScores slow_candidates (preference slow_trip) routine ! 10)) = 3 / 5"
proof -
  have p: "preference slow_trip = pref_time" by (simp add: slow_trip_def)
  have a: "allRoutes (fst (planRoute amap_slow_subway slow_trip ())) =
      take 10 (calculateScores slow_candidates pref_time routine)"
    unfolding planRoute_allRoutes slow_trip_scenario slow_candidates_def p ..
  show ?thesis
    unfolding a p
    by (simp add: calculateScores_length slow_candidates_length slow_total_0 slow_total_1
        slow_total_10)
qed


lemma truncate_score_route: "route.truncate (score_route a b c d pref scen r) = r"
  by (simp add: score_route_def Let_def route.truncate_def)

lemma truncate_calculateScores: "map route.truncate (calculateScores routes pref scen) = routes"
  by (simp add: calculateScores_def Let_def truncate_score_route comp_def)

text \<open>
  Claim C2, amended. \<open>allRoutes\<close> is the list of scored candidates in generation order
  (pure subway, pure taxi, pruned hybrids), cut to its first ten entries: it is
  \<open>scoredRoutes.slice(0, 10)\<close> of the unsorted list, its itineraries are the first ten
  candidates, its length is the lesser of 10 and the number of candidates, and
  \<open>meta.totalCandidates\<close> is the number of candidates before the cut.
\<close>

theorem allRoutes_generation_order:
  "allRoutes (fst (planRoute amap p w)) =
     take 10 (calculateScores (fst (generateAllRoutes amap (origin p) (destination p) w))
       (preference p) (detectScenario (origin p) (destination p) (hour_of_time p))) \<and>
   map route.truncate (allRoutes (fst (planRoute amap p w))) =
     take 10 (fst (generateAllRoutes amap (origin p) (destination p) w)) \<and>
   length (allRoutes (fst (planRoute amap p w))) =
     min 10 (length (fst (generateAllRoutes amap (origin p) (destination p) w))) \<and>
   totalCandidates (meta (fst (planRoute amap p w))) =
     length (fst (generateAllRoutes amap (origin p) (destination p) w))"
proof -
  have m: "totalCandidates (meta (fst (planRoute amap p w))) =
     length (fst (generateAllRoutes amap (origin p) (destination p) w))"
    by (cases "generateAllRoutes amap (origin p) (destination p) w")
      (simp add: planRoute_def Let_def)
  show ?thesis
    unfolding planRoute_allRoutes
    by (simp add: m take_map [symmetric] truncate_calculateScores calculateScores_length
        min.commute)
qed

theorem allRoutes_generation_order_witness:
  "length (allRoutes (fst (planRoute amap_slow_subway slow_trip ()))) = 10 \<and>
   totalCandidates (meta (fst (planRoute amap_slow_subway slow_trip ()))) = 12 \<and>
   map totalDuration (map route.truncate (allRoutes (fst (planRoute amap_slow_subway slow_trip ())))) =
     [300, 45, 103, 103, 103, 103, 103, 103, 103, 103]"
proof -
  note t = allRoutes_generation_order [of amap_slow_subway slow_trip "()",
      folded slow_candidates_def]
  from t have a: "map route.truncate (allRoutes (fst (planRoute amap_slow_subway slow_trip ())))
      = take 10 slow_candidates"
    by (rule conjunct1 [OF conjunct2])
  from t have b: "length (allRoutes (fst (planRoute amap_slow_subway slow_trip ())))
      = min 10 (length slow_candidates)"
    by (rule conjunct1 [OF conjunct2 [OF conjunct2]])
  from t have c: "totalCandidates (meta (fst (planRoute amap_slow_subway slow_trip ())))
      = length slow_candidates"
    by (rule conjunct2 [OF conjunct2 [OF conjunct2]])
  have d: "map totalDuration (take 10 slow_candidates) =
      [300, 45, 103, 103, 103, 103, 103, 103, 103, 103]"
    unfolding take_map [symmetric] slow_candidates_durations by simp
  show ?thesis
    unfolding a b c d slow_candidates_length by simp
qed


lemma mock_candidates_head:
  "take 2 mock_candidates =
     [ subway_candidate (hd mockSubwayRoutes),
       \<lparr> ident = taxi_full, rtype = taxi,
         segments = [Taxi \<lparr> tx_from = name airport_example, tx_to = name home_example,
                           tx_distance = 52000, tx_duration = 78, tx_cost = 1647 / 10,
                           tx_waitTime = 5 \<rparr>],
         totalDuration = 83, totalCost = 1647 / 10, totalDistance = 52000 \<rparr> ]"
  by (simp add: mock_candidates_def generateAllRoutes_def generateTaxiRoute_def
      amap_without_key_def mockSubwayRoutes_def mockDrivingRoute_def example_trip_def
      estimateTaxiCost_def Math_round_def Let_def split: prod.splits)


section \<open>The taxi candidate and the totals of the candidates\<close>

lemma calculateScores_keeps:
  assumes "i < length routes"
  shows "ident (calculateScores routes pref scen ! i) = ident (routes ! i)"
    and "totalCost (calculateScores routes pref scen ! i) = totalCost (routes ! i)"
  using assms by (simp_all add: calculateScores_nth score_route_def Let_def)

lemma mock_candidates_length: "2 \<le> length mock_candidates"
  using arg_cong [OF mock_candidates_head, of length] by simp

lemma mock_candidates_1:
  "mock_candidates ! 1 =
       \<lparr> ident = taxi_full, rtype = taxi,
         segments = [Taxi \<lparr> tx_from = name airport_example, tx_to = name home_example,
                           tx_distance = 52000, tx_duration = 78, tx_cost = 1647 / 10,
                           tx_waitTime = 5 \<rparr>],
         totalDuration = 83, totalCost = 1647 / 10, totalDistance = 52000 \<rparr>"
proof -
  have "mock_candidates ! 1 = take 2 mock_candidates ! 1" by simp
  then show ?thesis unfolding mock_candidates_head by simp
qed

lemma mock_candidates_0: "mock_candidates ! 0 = subway_candidate (hd mockSubwayRoutes)"
proof -
  have "mock_candidates ! 0 = take 2 mock_candidates ! 0" by simp
  then show ?thesis unfolding mock_candidates_head by simp
qed

lemma example_trip_scenario:
  "detectScenario (origin example_trip) (destination example_trip) (hour_of_time example_trip) = peak"
  by (simp add: example_trip_def detectScenario_def opt_includes_hub names_hub_home_example)

text \<open>
  Claim C1, at the trip of the repository's test (hour 18, simulated driving estimate of
  52000 m and 78 minutes): the detected scenario is \<open>peak\<close>, yet the \<open>taxi_full\<close>
  candidate costs 164.7, the fare without surcharge. \<open>_generateTaxiRoute\<close> calls the
  estimator without the scenario, so the estimator's default applies; given \<open>peak\<close> the
  estimator returns 214.1.
\<close>

theorem taxi_full_cost_without_surcharge:
  "detectScenario (origin example_trip) (destination example_trip) (hour_of_time example_trip)
     = peak \<and>
   meta_scenario (meta (fst (planRoute amap_without_key example_trip []))) = peak \<and>
   ident (allRoutes (fst (planRoute amap_without_key example_trip [])) ! 1) = taxi_full \<and>
   totalCost (allRoutes (fst (planRoute amap_without_key example_trip [])) ! 1) = 1647 / 10 \<and>
   estimateTaxiCost 52000 78 routine = 1647 / 10 \<and>
   estimateTaxiCost 52000 78 peak = 2141 / 10"
proof -
  have a: "allRoutes (fst (planRoute amap_without_key example_trip [])) =
      take 10 (calculateScores mock_candidates (preference example_trip) peak)"
    unfolding planRoute_allRoutes example_trip_scenario mock_candidates_def ..
  have l: "1 < length mock_candidates" using mock_candidates_length by simp
  have i: "ident (calculateScores mock_candidates (preference example_trip) peak ! 1) = taxi_full"
    unfolding calculateScores_keeps [OF l] mock_candidates_1 by simp
  have c: "totalCost (calculateScores mock_candidates (preference example_trip) peak ! 1) = 1647 / 10"
    unfolding calculateScores_keeps [OF l] mock_candidates_1 by simp
  have e: "estimateTaxiCost 52000 78 routine = 1647 / 10 \<and> estimateTaxiCost 52000 78 peak = 2141 / 10"
    by (simp add: estimateTaxiCost_def Let_def Math_round_def)
  have n: "take 10 (calculateScores mock_candidates (preference example_trip) peak) ! 1
     = calculateScores mock_candidates (preference example_trip) peak ! 1"
    by simp
  show ?thesis
    unfolding planRoute_meta_scenario a n i c example_trip_scenario using e by simp
qed

text \<open>
  Claim C3, as stated, fails on the simulated data. The pure-subway candidate has
  \<open>totalDuration\<close> 65 while its segments' durations add up to 75, \<open>totalCost\<close> 9 while
  no segment carries a cost, and \<open>totalDistance\<close> 45000 while the segments' distances add
  up to 800. The pure-taxi candidate has \<open>totalDuration\<close> 83 and one segment of
  duration 78.
\<close>

theorem totals_not_segment_sums_counterexample:
  "rtype (mock_candidates ! 0) = subway \<and>
   totalDuration (mock_candidates ! 0) = 65 \<and>
   sum_field seg_duration (segments (mock_candidates ! 0)) = 75 \<and>
   totalCost (mock_candidates ! 0) = 9 \<and>
   sum_field seg_cost (segments (mock_candidates ! 0)) = 0 \<and>
   totalDistance (mock_candidates ! 0) = 45000 \<and>
   sum_field seg_distance (segments (mock_candidates ! 0)) = 800 \<and>
   rtype (mock_candidates ! 1) = taxi \<and>
   totalDuration (mock_candidates ! 1) = 83 \<and>
   sum_field seg_duration (segments (mock_candidates ! 1)) = 78"
  unfolding mock_candidates_0 mock_candidates_1
  by (simp add: subway_candidate_def mockSubwayRoutes_def sum_field_def)


lemma calculateTaxiSegment_answer:
  "calculateTaxiSegment amap a b w = (Inr x, w1) \<Longrightarrow> taxi_leg_answer amap a b x"
proof -
  assume h: "calculateTaxiSegment amap a b w = (Inr x, w1)"
  obtain d w2 where g: "getDrivingRoute amap a b w = (d, w2)" by force
  from h g obtain drv where d: "d = Some drv"
    by (cases d) (simp_all add: calculateTaxiSegment_def)
  from h g d have x: "x = \<lparr> tx_from = name a, tx_to = name b, tx_distance = d_distance drv,
      tx_duration = d_duration drv + 3,
      tx_cost = mixed_estimateTaxiCost (d_distance drv) (d_duration drv),
      tx_waitTime = 3 \<rparr>"
    by (simp add: calculateTaxiSegment_def Let_def)
  show ?thesis
    unfolding taxi_leg_answer_def
    by (intro exI [of _ w] exI [of _ drv] exI [of _ w2]) (simp add: g d x)
qed

lemma transit_answerI:
  "getSubwayRoutes amap a b w = (t # others, w1) \<Longrightarrow> transit_answer amap a b t"
  unfolding transit_answer_def by blast

lemma start_taxi_route_totals: "totals_from_legs [x] t [] (start_taxi_route st x t)"
  by (simp add: totals_from_legs_def start_taxi_route_def)

lemma end_taxi_route_totals: "totals_from_legs [] t [x] (end_taxi_route st t x)"
  by (simp add: totals_from_legs_def end_taxi_route_def)

lemma both_taxi_route_totals: "totals_from_legs [x] t [y] (both_taxi_route s1 s2 x t y)"
  by (simp add: totals_from_legs_def both_taxi_route_def)

lemma start_taxi_loop_kind:
  "start_taxi_loop amap a b sts w = (rs, w') \<Longrightarrow> r \<in> set rs \<Longrightarrow>
     rtype r = mixed \<and> start_taxi_kind amap a b sts r"
proof (induction sts arbitrary: w rs w')
  case Nil
  then show ?case by simp
next
  case (Cons st sts)
  obtain c w1 where c: "calculateTaxiSegment amap a st w = (c, w1)" by force
  show ?case
  proof (cases c)
    case (Inl e)
    with Cons.prems c have "start_taxi_loop amap a b sts w1 = (rs, w')" by simp
    from Cons.IH [OF this Cons.prems(2)] show ?thesis
      by (simp add: start_taxi_kind_def)
  next
    case (Inr x)
    obtain ts w2 where ts: "getSubwayRoutes amap st b w1 = (ts, w2)" by force
    show ?thesis
    proof (cases ts)
      case Nil
      with Cons.prems c Inr ts have "start_taxi_loop amap a b sts w2 = (rs, w')" by simp
      from Cons.IH [OF this Cons.prems(2)] show ?thesis
        by (simp add: start_taxi_kind_def)
    next
      case (Cons t others)
      obtain rs2 w3 where l: "start_taxi_loop amap a b sts w2 = (rs2, w3)" by force
      have rs: "rs = start_taxi_route st x t # rs2"
        using Cons.prems(1) c Inr ts Cons l by simp
      show ?thesis
      proof (cases "r = start_taxi_route st x t")
        case True
        have "taxi_leg_answer amap a st x" using c Inr by (auto dest: calculateTaxiSegment_answer)
        moreover have "transit_answer amap st b t" using ts Cons by (auto dest: transit_answerI)
        ultimately show ?thesis
          using start_taxi_route_totals [of x t st] True
          by (auto simp: start_taxi_kind_def start_taxi_route_def)
      next
        case False
        with rs Cons.prems(2) have "r \<in> set rs2" by simp
        from Cons.IH [OF l this] show ?thesis by (simp add: start_taxi_kind_def)
      qed
    qed
  qed
qed

lemma end_taxi_loop_kind:
  "end_taxi_loop amap a b sts w = (rs, w') \<Longrightarrow> r \<in> set rs \<Longrightarrow>
     rtype r = mixed \<and> end_taxi_kind amap a b sts r"
proof (induction sts arbitrary: w rs w')
  case Nil
  then show ?case by simp
next
  case (Cons st sts)
  obtain ts w1 where ts: "getSubwayRoutes amap a st w = (ts, w1)" by force
  show ?case
  proof (cases ts)
    case Nil
    with Cons.prems ts have "end_taxi_loop amap a b sts w1 = (rs, w')" by simp
    from Cons.IH [OF this Cons.prems(2)] show ?thesis
      by (simp add: end_taxi_kind_def)
  next
    case (Cons t others)
    obtain c w2 where c: "calculateTaxiSegment amap st b w1 = (c, w2)" by force
    show ?thesis
    proof (cases c)
      case (Inl e)
      with Cons.prems ts Cons c have "end_taxi_loop amap a b sts w2 = (rs, w')" by simp
      from Cons.IH [OF this Cons.prems(2)] show ?thesis
        by (simp add: end_taxi_kind_def)
    next
      case (Inr x)
      obtain rs2 w3 where l: "end_taxi_loop amap a b sts w2 = (rs2, w3)" by force
      have rs: "rs = end_taxi_route st t x # rs2"
        using Cons.prems(1) c Inr ts Cons l by simp
      show ?thesis
      proof (cases "r = end_taxi_route st t x")
        case True
        have "taxi_leg_answer amap st b x" using c Inr by (auto dest: calculateTaxiSegment_answer)
        moreover have "transit_answer amap a st t" using ts Cons by (auto dest: transit_answerI)
        ultimately show ?thesis
          using end_taxi_route_totals [of t x st] True
          by (auto simp: end_taxi_kind_def end_taxi_route_def)
      next
        case False
        with rs Cons.prems(2) have "r \<in> set rs2" by simp
        from Cons.IH [OF l this] show ?thesis by (simp add: end_taxi_kind_def)
      qed
    qed
  qed
qed

lemma both_taxi_inner_kind:
  "both_taxi_inner amap a b s1 ends w = (rs, w') \<Longrightarrow> r \<in> set rs \<Longrightarrow>
     rtype r = mixed \<and> both_taxi_kind amap a b [s1] ends r"
proof (induction ends arbitrary: w rs w')
  case Nil
  then show ?case by simp
next
  case (Cons s2 ends)
  obtain c w1 where c: "calculateTaxiSegment amap a s1 w = (c, w1)" by force
  show ?case
  proof (cases c)
    case (Inl e)
    with Cons.prems c have "both_taxi_inner amap a b s1 ends w1 = (rs, w')" by simp
    from Cons.IH [OF this Cons.prems(2)] show ?thesis
      by (simp add: both_taxi_kind_def)
  next
    case (Inr x)
    obtain ts w2 where ts: "getSubwayRoutes amap s1 s2 w1 = (ts, w2)" by force
    show ?thesis
    proof (cases ts)
      case Nil
      with Cons.prems c Inr ts have "both_taxi_inner amap a b s1 ends w2 = (rs, w')" by simp
      from Cons.IH [OF this Cons.prems(2)] show ?thesis
        by (simp add: both_taxi_kind_def)
    next
      case (Cons t others)
      obtain d w3 where d: "calculateTaxiSegment amap s2 b w2 = (d, w3)" by force
      show ?thesis
      proof (cases d)
        case (Inl e)
        with Cons.prems c Inr ts Cons d
        have "both_taxi_inner amap a b s1 ends w3 = (rs, w')" by simp
        from Cons.IH [OF this Cons.prems(2)] show ?thesis
          by (simp add: both_taxi_kind_def)
      next
        case y: (Inr y)
        obtain rs2 w4 where l: "both_taxi_inner amap a b s1 ends w3 = (rs2, w4)" by force
        have rs: "rs = both_taxi_route s1 s2 x t y # rs2"
          using Cons.prems(1) c Inr ts Cons d y l by simp
        show ?thesis
        proof (cases "r = both_taxi_route s1 s2 x t y")
          case True
          have "taxi_leg_answer amap a s1 x"
            using c Inr by (auto dest: calculateTaxiSegment_answer)
          moreover have "transit_answer amap s1 s2 t"
            using ts Cons by (auto dest: transit_answerI)
          moreover have "taxi_leg_answer amap s2 b y"
            using d y by (auto dest: calculateTaxiSegment_answer)
          ultimately show ?thesis
            using both_taxi_route_totals [of x t y s1 s2] True
            by (auto simp: both_taxi_kind_def both_taxi_route_def)
        next
          case False
          with rs Cons.prems(2) have "r \<in> set rs2" by simp
          from Cons.IH [OF l this] show ?thesis by (simp add: both_taxi_kind_def)
        qed
      qed
    qed
  qed
qed

lemma both_taxi_outer_kind:
  "both_taxi_outer amap a b starts ends w = (rs, w') \<Longrightarrow> r \<in> set rs \<Longrightarrow>
     rtype r = mixed \<and> both_taxi_kind amap a b starts ends r"
proof (induction starts arbitrary: w rs w')
  case Nil
  then show ?case by simp
next
  case (Cons s1 starts)
  obtain rs1 w1 where i: "both_taxi_inner amap a b s1 ends w = (rs1, w1)" by force
  obtain rs2 w2 where o: "both_taxi_outer amap a b starts ends w1 = (rs2, w2)" by force
  have "rs = rs1 @ rs2" using Cons.prems(1) i o by simp
  with Cons.prems(2) have "r \<in> set rs1 \<or> r \<in> set rs2" by simp
  then show ?case
  proof
    assume "r \<in> set rs1"
    from both_taxi_inner_kind [OF i this] show ?thesis by (simp add: both_taxi_kind_def)
  next
    assume "r \<in> set rs2"
    from Cons.IH [OF o this] show ?thesis by (simp add: both_taxi_kind_def)
  qed
qed

lemma set_pruneRoutes: "set (pruneRoutes routes) \<subseteq> set routes"
proof -
  have "set (pruneRoutes routes) \<subseteq> set (sort_key prune_key (filter worth_keeping routes))"
    unfolding pruneRoutes_def Let_def by (rule set_take_subset)
  then show ?thesis by auto
qed

lemma generateMixedRoutes_kind:
  assumes "r \<in> set (fst (generateMixedRoutes amap a b (getSubwayStationsAlongRoute a b) w))"
  shows "hybrid_kind amap a b r"
proof -
  define sts where "sts = getSubwayStationsAlongRoute a b"
  obtain r1 w1 where 1: "start_taxi_loop amap a b (take 5 sts) w = (r1, w1)" by force
  obtain r2 w2 where 2: "end_taxi_loop amap a b (drop (length sts - 5) sts) w1 = (r2, w2)"
    by force
  obtain r3 w3 where 3:
    "both_taxi_outer amap a b (take 2 sts) (drop (length sts - 2) sts) w2 = (r3, w3)"
    by force
  have "r \<in> set (pruneRoutes (r1 @ r2 @ r3))"
    using assms
    by (simp add: generateMixedRoutes_def generateStartTaxiRoutes_def
        generateEndTaxiRoutes_def generateBothTaxiRoutes_def Let_def 1 2 3
        sts_def [symmetric])
  then have "r \<in> set r1 \<or> r \<in> set r2 \<or> r \<in> set r3"
    using set_pruneRoutes [of "r1 @ r2 @ r3"] by auto
  then show ?thesis
  proof (elim disjE)
    assume "r \<in> set r1"
    from start_taxi_loop_kind [OF 1 this] show ?thesis
      by (simp add: hybrid_kind_def Let_def sts_def)
  next
    assume "r \<in> set r2"
    from end_taxi_loop_kind [OF 2 this] show ?thesis
      by (simp add: hybrid_kind_def Let_def sts_def)
  next
    assume "r \<in> set r3"
    from both_taxi_outer_kind [OF 3 this] show ?thesis
      by (simp add: hybrid_kind_def Let_def sts_def)
  qed
qed

lemma generateTaxiRoute_kind:
  assumes "fst (generateTaxiRoute amap a b (snd (getSubwayRoutes amap a b w))) = Some r"
  shows "taxi_kind amap a b w r"
proof -
  define w1 where "w1 = snd (getSubwayRoutes amap a b w)"
  obtain d w2 where g: "getDrivingRoute amap a b w1 = (d, w2)" by force
  show ?thesis
  proof (cases d)
    case None
    with g assms show ?thesis by (simp add: generateTaxiRoute_def w1_def)
  next
    case (Some drv)
    define x where "x = \<lparr> tx_from = name a, tx_to = name b, tx_distance = d_distance drv,
        tx_duration = d_duration drv,
        tx_cost = estimateTaxiCost (d_distance drv) (d_duration drv) routine,
        tx_waitTime = 5 \<rparr>"
    have r: "r = \<lparr> ident = taxi_full, rtype = taxi, segments = [Taxi x],
        totalDuration = d_duration drv + 5,
        totalCost = estimateTaxiCost (d_distance drv) (d_duration drv) routine,
        totalDistance = d_distance drv \<rparr>"
      using g Some assms by (simp add: generateTaxiRoute_def Let_def x_def w1_def)
    have "taxi_only_totals x r" by (simp add: r x_def taxi_only_totals_def)
    moreover have "rtype r = taxi" by (simp add: r)
    moreover have "fst (getDrivingRoute amap a b (snd (getSubwayRoutes amap a b w))) = Some drv"
      using g Some by (simp add: w1_def)
    moreover have "tx_distance x = d_distance drv \<and> tx_duration x = d_duration drv \<and>
        tx_waitTime x = 5 \<and>
        tx_cost x = estimateTaxiCost (d_distance drv) (d_duration drv) routine"
      by (simp add: x_def)
    ultimately show ?thesis unfolding taxi_kind_def by blast
  qed
qed

lemma subway_candidate_kind:
  assumes "t \<in> set (fst (getSubwayRoutes amap a b w))"
  shows "subway_kind amap a b w (subway_candidate t)"
proof -
  have "totals_from_legs [] t [] (subway_candidate t)"
    by (simp add: totals_from_legs_def subway_candidate_def)
  with assms show ?thesis
    by (auto simp: subway_kind_def list_ex_iff subway_candidate_def)
qed

text \<open>
  Claim C3, amended. Every generated itinerary is of one of three kinds. A pure-subway
  candidate carries the segments of an itinerary the provider returned for the trip, and
  its totals are the provider's own duration, cost and distance of that itinerary. The
  pure-taxi candidate has one taxi segment made from the provider's driving estimate for
  the trip; the segment's cost and distance are the totals, and \<open>totalDuration\<close> is the
  segment's duration plus the 5 minutes of waiting. A hybrid candidate has one or two taxi
  legs, each made from a driving estimate of the provider, around the segments of the
  first transit itinerary the provider returned for the stations of its strategy; each
  total is the sum of the field over the taxi legs plus the provider's own figure for
  that transit itinerary.
\<close>

theorem generated_totals:
  assumes "r \<in> set (fst (generateAllRoutes amap orig dest w))"
  shows "subway_kind amap orig dest w r \<or> taxi_kind amap orig dest w r \<or>
         hybrid_kind amap orig dest r"
proof -
  obtain subs w1 where 1: "getSubwayRoutes amap orig dest w = (subs, w1)" by force
  obtain tr w2 where 2: "generateTaxiRoute amap orig dest w1 = (tr, w2)" by force
  obtain ms w3 where 3:
    "generateMixedRoutes amap orig dest (getSubwayStationsAlongRoute orig dest) w2 = (ms, w3)"
    by force
  have "r \<in> set (map subway_candidate subs) \<or> tr = Some r \<or> r \<in> set ms"
    using assms by (auto simp: generateAllRoutes_def 1 2 3 Let_def split: option.splits)
  then show ?thesis
  proof (elim disjE)
    assume "r \<in> set (map subway_candidate subs)"
    then obtain t where "t \<in> set subs" and "r = subway_candidate t" by auto
    with 1 show ?thesis using subway_candidate_kind [of t amap orig dest w] by simp
  next
    assume "tr = Some r"
    with 1 2 have "fst (generateTaxiRoute amap orig dest (snd (getSubwayRoutes amap orig dest w)))
        = Some r"
      by simp
    then show ?thesis by (simp add: generateTaxiRoute_kind)
  next
    assume "r \<in> set ms"
    with 3 have
      "r \<in> set (fst (generateMixedRoutes amap orig dest (getSubwayStationsAlongRoute orig dest) w2))"
      by simp
    then show ?thesis by (simp add: generateMixedRoutes_kind)
  qed
qed

lemma mock_candidates_types:
  "map rtype mock_candidates =
     [subway, taxi, mixed, mixed, mixed, mixed, mixed, mixed, mixed, mixed, mixed, mixed]"
  by (simp add: mock_candidates_def gen_defs amap_without_key_def mockDrivingRoute_def
      mockSubwayRoutes_def example_trip_def)

lemma mock_candidates_rtype:
  "rtype (mock_candidates ! 0) = subway" "rtype (mock_candidates ! 1) = taxi"
  "rtype (mock_candidates ! 2) = mixed" "length mock_candidates = 12"
proof -
  have "length (map rtype mock_candidates) = 12" unfolding mock_candidates_types by simp
  then show l: "length mock_candidates = 12" by simp
  show "rtype (mock_candidates ! 0) = subway"
    using nth_map [of 0 mock_candidates rtype] l by (simp add: mock_candidates_types)
  show "rtype (mock_candidates ! 1) = taxi"
    using nth_map [of 1 mock_candidates rtype] l by (simp add: mock_candidates_types)
  show "rtype (mock_candidates ! 2) = mixed"
    using nth_map [of 2 mock_candidates rtype] l by (simp add: mock_candidates_types)
qed

theorem generated_totals_witness:
  "mock_candidates ! 0 \<in> set mock_candidates \<and>
   subway_kind amap_without_key (origin example_trip) (destination example_trip) []
     (mock_candidates ! 0) \<and>
   mock_candidates ! 1 \<in> set mock_candidates \<and>
   taxi_kind amap_without_key (origin example_trip) (destination example_trip) []
     (mock_candidates ! 1) \<and>
   mock_candidates ! 2 \<in> set mock_candidates \<and>
   hybrid_kind amap_without_key (origin example_trip) (destination example_trip)
     (mock_candidates ! 2)"
proof -
  have 0: "mock_candidates ! 0 \<in> set mock_candidates"
    by (intro nth_mem) (simp add: mock_candidates_rtype)
  have 1: "mock_candidates ! 1 \<in> set mock_candidates"
    by (intro nth_mem) (simp add: mock_candidates_rtype)
  have 2: "mock_candidates ! 2 \<in> set mock_candidates"
    by (intro nth_mem) (simp add: mock_candidates_rtype)
  note k0 = generated_totals [OF 0 [unfolded mock_candidates_def], folded mock_candidates_def]
  note k1 = generated_totals [OF 1 [unfolded mock_candidates_def], folded mock_candidates_def]
  note k2 = generated_totals [OF 2 [unfolded mock_candidates_def], folded mock_candidates_def]
  have a: "subway_kind amap_without_key (origin example_trip) (destination example_trip) []
     (mock_candidates ! 0)"
    using k0 mock_candidates_rtype(1) by (auto simp: taxi_kind_def hybrid_kind_def Let_def)
  have b: "taxi_kind amap_without_key (origin example_trip) (destination example_trip) []
     (mock_candidates ! 1)"
    using k1 mock_candidates_rtype(2) by (auto simp: subway_kind_def hybrid_kind_def Let_def)
  have c: "hybrid_kind amap_without_key (origin example_trip) (destination example_trip)
     (mock_candidates ! 2)"
    using k2 mock_candidates_rtype(3) by (auto simp: subway_kind_def taxi_kind_def)
  from 0 1 2 a b c show ?thesis by blast
qed

section \<open>Input validation\<close>











end
